theory Spec2Isabelle
  imports Complex_Main "HOL-Library.Multiset"
begin

section \<open>Python values shared by both source files\<close>

text \<open>
  The exceptions the modelled code can raise. The repository defines no exception class
  of its own; these are the built-in ones its statements raise.
\<close>

datatype py_error = IndexError | KeyError | ValueError | OverflowError | TypeError
  | AssertionError | FileNotFoundError | ImportError string

text \<open>
  A Python float: a finite value (taken as an exact real, rounding is not modelled) or one
  of the three non-finite values.
\<close>

datatype pyfloat = Fin real | PInf | NInf | NaN

text \<open>\<^verbatim>\<open>a < b\<close> on floats: every comparison with NaN is false.\<close>

fun flt :: "pyfloat \<Rightarrow> pyfloat \<Rightarrow> bool" where
  "flt NaN _ = False"
| "flt _ NaN = False"
| "flt (Fin a) (Fin b) = (a < b)"
| "flt (Fin _) PInf = True"
| "flt (Fin _) NInf = False"
| "flt PInf _ = False"
| "flt NInf NInf = False"
| "flt NInf _ = True"

text \<open>\<^verbatim>\<open>int(x)\<close> on a finite float truncates toward zero.\<close>

definition py_int :: "real \<Rightarrow> int" where
  "py_int x = (if 0 \<le> x then \<lfloor>x\<rfloor> else \<lceil>x\<rceil>)"

text \<open>\<^verbatim>\<open>int(x)\<close> on any float: infinities raise OverflowError, NaN raises ValueError.\<close>

fun int_of_float :: "pyfloat \<Rightarrow> py_error + int" where
  "int_of_float (Fin x) = Inr (py_int x)"
| "int_of_float PInf = Inl OverflowError"
| "int_of_float NInf = Inl OverflowError"
| "int_of_float NaN = Inl ValueError"

text \<open>
  List slicing \<^verbatim>\<open>xs[start:stop]\<close> with step 1: a negative bound counts from the end,
  and every bound is clamped into \<open>0..len(xs)\<close>; \<open>None\<close> is an omitted bound.
\<close>

definition slice_bound :: "nat \<Rightarrow> int \<Rightarrow> nat" where
  "slice_bound n i = (if i < 0 then nat (max 0 (int n + i)) else min n (nat i))"

definition py_slice :: "'a list \<Rightarrow> int option \<Rightarrow> int option \<Rightarrow> 'a list" where
  "py_slice xs start stop =
     (let n = length xs;
          lo = (case start of None \<Rightarrow> 0 | Some i \<Rightarrow> slice_bound n i);
          hi = (case stop of None \<Rightarrow> n | Some j \<Rightarrow> slice_bound n j)
      in take (hi - lo) (drop lo xs))"

text \<open>\<^verbatim>\<open>xs[i]\<close> on a list, with a non-negative literal index as the source uses it.\<close>

definition item :: "'a list \<Rightarrow> nat \<Rightarrow> py_error + 'a" where
  "item xs i = (if i < length xs then Inr (xs ! i) else Inl IndexError)"

text \<open>
  A pandas DataFrame as the list of its rows, each with its index label.
  \<^verbatim>\<open>dataframe.index\<close> is the list of labels; \<^verbatim>\<open>dataframe.loc[labels]\<close> selects, for
  each label in turn, every row carrying it, and raises KeyError for a label that is not
  in the index.
\<close>

type_synonym 'r dataframe = "(nat \<times> 'r) list"

definition df_index :: "'r dataframe \<Rightarrow> nat list" where
  "df_index df = map fst df"

definition rows_of :: "'r dataframe \<Rightarrow> nat list \<Rightarrow> 'r dataframe" where
  "rows_of df labels = concat (map (\<lambda>l. filter (\<lambda>p. fst p = l) df) labels)"

definition loc :: "'r dataframe \<Rightarrow> nat list \<Rightarrow> py_error + 'r dataframe" where
  "loc df labels =
     (if list_all (\<lambda>l. l \<in> set (df_index df)) labels
      then Inr (rows_of df labels)
      else Inl KeyError)"

section \<open>nutrition5k/dataset.py: the sample transforms\<close>

text \<open>
  An array is its shape and its elements in row-major order; a \<^verbatim>\<open>numpy.ndarray\<close> and a
  \<^verbatim>\<open>torch.Tensor\<close> are both arrays, told apart by the constructor. Arrays are values:
  no transform of the file writes into an array it was given.
\<close>

record 'a array =
  shape :: "nat list"
  data :: "'a list"

datatype 'a arr = Ndarray "'a array" | Tensor "'a array"

text \<open>
  A sample is a dictionary with the keys \<open>image\<close>, \<open>mass\<close> and \<open>calories\<close>. Dictionaries
  are mutable objects: the store maps a reference to the dictionary it now holds,
  \<open>next_ref\<close> is the first reference not yet allocated, and \<open>rng\<close> counts the draws made
  from torch's global random generator.
\<close>

record sample =
  image :: "real arr"
  mass :: "pyfloat arr"
  calories :: "pyfloat arr"

type_synonym ref = nat

record world =
  heap :: "ref \<Rightarrow> sample"
  next_ref :: ref
  rng :: nat

text \<open>
  The argument \<^verbatim>\<open>output_size\<close>: an int, a tuple of ints, or a value of another type.
\<close>

datatype size_arg = SizeInt int | SizeTuple "int list" | SizeOther

text \<open>
  The library functions the transforms call, taken as parameters: the value skimage's
  \<^verbatim>\<open>resize\<close> interpolates at each position of its output (input array, target height and
  width, position in row-major order), torchvision's \<^verbatim>\<open>center_crop\<close>, \<^verbatim>\<open>hflip\<close>,
  \<^verbatim>\<open>vflip\<close> and \<^verbatim>\<open>normalize\<close> with the errors they raise, and the draws of
  \<^verbatim>\<open>torch.rand(1)\<close>.
\<close>

record lib =
  interpolate :: "real array \<Rightarrow> nat \<Rightarrow> nat \<Rightarrow> nat \<Rightarrow> real"
  center_crop :: "real arr \<Rightarrow> size_arg \<Rightarrow> py_error + real arr"
  hflip :: "real arr \<Rightarrow> py_error + real arr"
  vflip :: "real arr \<Rightarrow> py_error + real arr"
  normalize :: "real arr \<Rightarrow> real list \<Rightarrow> real list \<Rightarrow> py_error + real arr"
  torch_rand :: "nat \<Rightarrow> real"

text \<open>The transform objects, each with the attributes its \<^verbatim>\<open>__init__\<close> stores.\<close>

datatype transform =
    Resize size_arg
  | CenterCrop size_arg
  | RandomHorizontalFlip real
  | RandomVerticalFlip real
  | ToTensor
  | Normalize "real list" "real list" pyfloat pyfloat

text \<open>\<^verbatim>\<open>Resize.__init__\<close>: \<^verbatim>\<open>assert isinstance(output_size, (int, tuple))\<close>.\<close>

definition Resize_init :: "size_arg \<Rightarrow> py_error + transform" where
  "Resize_init output_size =
     (case output_size of SizeOther \<Rightarrow> Inl AssertionError | _ \<Rightarrow> Inr (Resize output_size))"

text \<open>
  \<^verbatim>\<open>transform.resize(image, (new_h, new_w), preserve_range=True)\<close>, from skimage's
  documentation: the output has the requested rows and columns and keeps the remaining
  dimensions of its input. The model takes an ndarray of at least two dimensions and
  non-negative sizes to be accepted and anything else to be rejected.
\<close>

definition sk_resize :: "lib \<Rightarrow> real arr \<Rightarrow> int \<Rightarrow> int \<Rightarrow> py_error + real array" where
  "sk_resize L img new_h new_w =
     (case img of
        Tensor _ \<Rightarrow> Inl TypeError
      | Ndarray a \<Rightarrow>
          if new_h < 0 \<or> new_w < 0 \<or> length (shape a) < 2 then Inl ValueError
          else
            let sh = nat new_h # nat new_w # drop 2 (shape a)
            in Inr \<lparr>shape = sh,
                    data = map (interpolate L a (nat new_h) (nat new_w)) [0..<prod_list sh]\<rparr>)"

text \<open>\<^verbatim>\<open>.astype('uint8')\<close>: the fraction is dropped and the value reduced modulo 256.\<close>

definition astype_uint8 :: "real array \<Rightarrow> real array" where
  "astype_uint8 a = a\<lparr>data := map (\<lambda>x. real_of_int (py_int x mod 256)) (data a)\<rparr>"

text \<open>
  The elements, in row-major order, of the array of shape \<open>(c, h, w)\<close> whose element at
  \<open>(k, i, j)\<close> is \<open>f i j k\<close>.
\<close>

definition channel_first :: "(nat \<Rightarrow> nat \<Rightarrow> nat \<Rightarrow> 'a) \<Rightarrow> nat \<Rightarrow> nat \<Rightarrow> nat \<Rightarrow> 'a list" where
  "channel_first f c h w =
     concat (map (\<lambda>k. concat (map (\<lambda>i. map (\<lambda>j. f i j k) [0..<w]) [0..<h])) [0..<c])"

text \<open>
  \<^verbatim>\<open>image.transpose((2, 0, 1))\<close> on an array of three dimensions: the element at
  \<open>(k, i, j)\<close> of the result is the element at \<open>(i, j, k)\<close> of the input. Any other
  number of dimensions is a ValueError.
\<close>

definition transpose_201 :: "'a array \<Rightarrow> py_error + 'a array" where
  "transpose_201 a =
     (case shape a of
        [h, w, c] \<Rightarrow>
          Inr \<lparr>shape = [c, h, w],
               data = channel_first (\<lambda>i j k. data a ! ((i * w + j) * c + k)) c h w\<rparr>
      | _ \<Rightarrow> Inl ValueError)"

text \<open>\<^verbatim>\<open>torch.from_numpy\<close>: an ndarray becomes a tensor, anything else is a TypeError.\<close>

definition from_numpy :: "'a arr \<Rightarrow> py_error + 'a arr" where
  "from_numpy x = (case x of Ndarray a \<Rightarrow> Inr (Tensor a) | Tensor _ \<Rightarrow> Inl TypeError)"

text \<open>Float division as numpy and torch do it: dividing by zero raises nothing.\<close>

fun fdiv :: "pyfloat \<Rightarrow> pyfloat \<Rightarrow> pyfloat" where
  "fdiv NaN _ = NaN"
| "fdiv _ NaN = NaN"
| "fdiv (Fin a) (Fin b) =
     (if b = 0 then (if a = 0 then NaN else if 0 < a then PInf else NInf) else Fin (a / b))"
| "fdiv (Fin _) PInf = Fin 0"
| "fdiv (Fin _) NInf = Fin 0"
| "fdiv PInf (Fin b) = (if b < 0 then NInf else PInf)"
| "fdiv NInf (Fin b) = (if b < 0 then PInf else NInf)"
| "fdiv PInf _ = NaN"
| "fdiv NInf _ = NaN"

definition arr_div :: "pyfloat arr \<Rightarrow> pyfloat \<Rightarrow> pyfloat arr" where
  "arr_div x d =
     (case x of
        Ndarray a \<Rightarrow> Ndarray (a\<lparr>data := map (\<lambda>v. fdiv v d) (data a)\<rparr>)
      | Tensor a \<Rightarrow> Tensor (a\<lparr>data := map (\<lambda>v. fdiv v d) (data a)\<rparr>))"

text \<open>\<^verbatim>\<open>sample['image'] = value\<close> on the dictionary at a reference, and its two siblings.\<close>

definition set_image :: "world \<Rightarrow> ref \<Rightarrow> real arr \<Rightarrow> world" where
  "set_image w r v = w\<lparr>heap := (heap w)(r := (heap w r)\<lparr>image := v\<rparr>)\<rparr>"

definition set_mass :: "world \<Rightarrow> ref \<Rightarrow> pyfloat arr \<Rightarrow> world" where
  "set_mass w r v = w\<lparr>heap := (heap w)(r := (heap w r)\<lparr>mass := v\<rparr>)\<rparr>"

definition set_calories :: "world \<Rightarrow> ref \<Rightarrow> pyfloat arr \<Rightarrow> world" where
  "set_calories w r v = w\<lparr>heap := (heap w)(r := (heap w r)\<lparr>calories := v\<rparr>)\<rparr>"

text \<open>A dictionary display \<^verbatim>\<open>{...}\<close> allocates a new dictionary.\<close>

definition new_dict :: "world \<Rightarrow> sample \<Rightarrow> world \<times> ref" where
  "new_dict w s = (w\<lparr>heap := (heap w)(next_ref w := s), next_ref := Suc (next_ref w)\<rparr>, next_ref w)"

text \<open>
  The \<^verbatim>\<open>__call__\<close> methods. Each takes the reference of the sample and gives the world
  after the call, with the reference it returns or the exception it raises.
  \<^verbatim>\<open>Resize.__call__\<close> unpacks \<^verbatim>\<open>output_size\<close> into two values: an int cannot be
  unpacked (TypeError), and a tuple of another length is a ValueError.
\<close>

definition Resize_call :: "lib \<Rightarrow> size_arg \<Rightarrow> world \<Rightarrow> ref \<Rightarrow> world \<times> (py_error + ref)" where
  "Resize_call L output_size w r =
     (case output_size of
        SizeTuple [new_h, new_w] \<Rightarrow>
          (case sk_resize L (image (heap w r)) new_h new_w of
             Inl e \<Rightarrow> (w, Inl e)
           | Inr a \<Rightarrow> (set_image w r (Ndarray (astype_uint8 a)), Inr r))
      | SizeTuple _ \<Rightarrow> (w, Inl ValueError)
      | _ \<Rightarrow> (w, Inl TypeError))"

definition CenterCrop_call :: "lib \<Rightarrow> size_arg \<Rightarrow> world \<Rightarrow> ref \<Rightarrow> world \<times> (py_error + ref)" where
  "CenterCrop_call L output_size w r =
     (case center_crop L (image (heap w r)) output_size of
        Inl e \<Rightarrow> (w, Inl e)
      | Inr v \<Rightarrow> (set_image w r v, Inr r))"

text \<open>
  torchvision's random flips: \<^verbatim>\<open>if torch.rand(1) < self.p: return flip(img)\<close>, else the
  image as it is.
\<close>

definition random_flip ::
  "lib \<Rightarrow> (real arr \<Rightarrow> py_error + real arr) \<Rightarrow> real \<Rightarrow> world \<Rightarrow> ref \<Rightarrow> world \<times> (py_error + ref)" where
  "random_flip L flip probability w r =
     (let draw = torch_rand L (rng w);
          w1 = w\<lparr>rng := Suc (rng w)\<rparr>
      in if draw < probability
         then (case flip (image (heap w1 r)) of
                 Inl e \<Rightarrow> (w1, Inl e)
               | Inr v \<Rightarrow> (set_image w1 r v, Inr r))
         else (set_image w1 r (image (heap w1 r)), Inr r))"

definition ToTensor_call :: "world \<Rightarrow> ref \<Rightarrow> world \<times> (py_error + ref)" where
  "ToTensor_call w r =
     (let s = heap w r in
      case image s of
        Tensor _ \<Rightarrow> (w, Inl TypeError)
      | Ndarray a \<Rightarrow>
         (case transpose_201 a of Inl e \<Rightarrow> (w, Inl e) | Inr t \<Rightarrow>
         (case from_numpy (Ndarray t) of Inl e \<Rightarrow> (w, Inl e) | Inr i \<Rightarrow>
         (case from_numpy (mass s) of Inl e \<Rightarrow> (w, Inl e) | Inr m \<Rightarrow>
         (case from_numpy (calories s) of Inl e \<Rightarrow> (w, Inl e) | Inr c \<Rightarrow>
            (case new_dict w \<lparr>image = i, mass = m, calories = c\<rparr> of
               (w', r') \<Rightarrow> (w', Inr r')))))))"

definition Normalize_call ::
  "lib \<Rightarrow> real list \<Rightarrow> real list \<Rightarrow> pyfloat \<Rightarrow> pyfloat \<Rightarrow> world \<Rightarrow> ref \<Rightarrow> world \<times> (py_error + ref)" where
  "Normalize_call L means stds mass_max calories_max w r =
     (let w1 = set_mass w r (arr_div (mass (heap w r)) mass_max);
          w2 = set_calories w1 r (arr_div (calories (heap w1 r)) calories_max)
      in case normalize L (image (heap w2 r)) means stds of
           Inl e \<Rightarrow> (w2, Inl e)
         | Inr v \<Rightarrow> (set_image w2 r v, Inr r))"

fun transform_call :: "lib \<Rightarrow> transform \<Rightarrow> world \<Rightarrow> ref \<Rightarrow> world \<times> (py_error + ref)" where
  "transform_call L (Resize output_size) w r = Resize_call L output_size w r"
| "transform_call L (CenterCrop output_size) w r = CenterCrop_call L output_size w r"
| "transform_call L (RandomHorizontalFlip p) w r = random_flip L (hflip L) p w r"
| "transform_call L (RandomVerticalFlip p) w r = random_flip L (vflip L) p w r"
| "transform_call L ToTensor w r = ToTensor_call w r"
| "transform_call L (Normalize means stds mass_max calories_max) w r =
     Normalize_call L means stds mass_max calories_max w r"

text \<open>
  torchvision's \<^verbatim>\<open>transforms.Compose\<close>: \<^verbatim>\<open>__init__\<close> stores the list it is given, and
  \<^verbatim>\<open>__call__\<close> is \<^verbatim>\<open>for t in self.transforms: img = t(img)\<close>. The elements of the list
  are constructor calls, evaluated from left to right before \<^verbatim>\<open>Compose\<close> is called, so
  the first that raises ends the construction.
\<close>

datatype pipeline = Compose "transform list"

fun collect :: "(py_error + 'a) list \<Rightarrow> py_error + 'a list" where
  "collect [] = Inr []"
| "collect (Inl e # _) = Inl e"
| "collect (Inr x # rest) = (case collect rest of Inl e \<Rightarrow> Inl e | Inr xs \<Rightarrow> Inr (x # xs))"

definition Compose_init :: "(py_error + transform) list \<Rightarrow> py_error + pipeline" where
  "Compose_init elements =
     (case collect elements of Inl e \<Rightarrow> Inl e | Inr ts \<Rightarrow> Inr (Compose ts))"

fun transforms_call :: "lib \<Rightarrow> transform list \<Rightarrow> world \<Rightarrow> ref \<Rightarrow> world \<times> (py_error + ref)" where
  "transforms_call L [] w r = (w, Inr r)"
| "transforms_call L (t # ts) w r =
     (case transform_call L t w r of
        (w', Inl e) \<Rightarrow> (w', Inl e)
      | (w', Inr r') \<Rightarrow> transforms_call L ts w' r')"

fun Compose_call :: "lib \<Rightarrow> pipeline \<Rightarrow> world \<Rightarrow> ref \<Rightarrow> world \<times> (py_error + ref)" where
  "Compose_call L (Compose ts) w r = transforms_call L ts w r"

section \<open>nutrition5k/dataset.py: create_nutrition_df\<close>

text \<open>
  What the function asks of its surroundings: \<^verbatim>\<open>os.path.exists\<close>, the lines
  \<^verbatim>\<open>open(path).readlines()\<close> returns (each with its line terminator, or the error
  \<^verbatim>\<open>open\<close> raises), and the built-in \<^verbatim>\<open>float\<close> on a string.
\<close>

record os_env =
  path_exists :: "string \<Rightarrow> bool"
  readlines :: "string \<Rightarrow> py_error + string list"
  float_str :: "string \<Rightarrow> py_error + pyfloat"

text \<open>
  \<^verbatim>\<open>os.path.join\<close> on POSIX: a component that starts with a slash replaces what was
  joined so far; otherwise it is appended, after a slash unless the path is empty or
  already ends with one.
\<close>

definition join2 :: "string \<Rightarrow> string \<Rightarrow> string" where
  "join2 path b =
     (if b \<noteq> [] \<and> hd b = CHR ''/'' then b
      else if path = [] \<or> last path = CHR ''/'' then path @ b
      else path @ ''/'' @ b)"

definition path_join :: "string \<Rightarrow> string list \<Rightarrow> string" where
  "path_join a ps = foldl join2 a ps"

text \<open>\<^verbatim>\<open>line.split(sep)\<close> for a one-character separator: never an empty list.\<close>

fun split_on :: "char \<Rightarrow> string \<Rightarrow> string list" where
  "split_on c [] = [[]]"
| "split_on c (x # xs) =
     (if x = c then [] # split_on c xs
      else (case split_on c xs of [] \<Rightarrow> [[x]] | p # ps \<Rightarrow> (x # p) # ps))"

text \<open>The dictionary \<^verbatim>\<open>dish_metadata\<close>: one list per key.\<close>

record dish_metadata =
  dish_id_col :: "string list"
  mass_col :: "string list"
  calories_col :: "int list"

text \<open>A row of the resulting frame: the three columns at one position.\<close>

record dish_record =
  dish_id :: string
  row_mass :: string
  row_calories :: int

definition frame_path :: "string \<Rightarrow> string \<Rightarrow> string" where
  "frame_path root_dir dish = 
     path_join (path_join root_dir [''imagery'', ''side_angles'', dish, ''camera_A'']) [''1.jpg'']"

text \<open>
  The body of the loop over the lines of one file. An exception leaves the function, so
  the partly extended dictionary is lost with it.
\<close>

definition add_line :: "os_env \<Rightarrow> string \<Rightarrow> dish_metadata \<Rightarrow> string \<Rightarrow> py_error + dish_metadata" where
  "add_line env root_dir md line =
     (let parts = split_on CHR '','' line in
      case item parts 0 of Inl e \<Rightarrow> Inl e | Inr dish \<Rightarrow>
      if \<not> path_exists env (frame_path root_dir dish) then Inr md
      else
        let md1 = md\<lparr>dish_id_col := dish_id_col md @ [dish]\<rparr> in
        case item parts 1 of Inl e \<Rightarrow> Inl e | Inr p1 \<Rightarrow>
        (case float_str env p1 of Inl e \<Rightarrow> Inl e | Inr x \<Rightarrow>
        (case int_of_float x of Inl e \<Rightarrow> Inl e | Inr c \<Rightarrow>
          let md2 = md1\<lparr>calories_col := calories_col md1 @ [c]\<rparr> in
          (case item parts 2 of Inl e \<Rightarrow> Inl e | Inr p2 \<Rightarrow>
             Inr (md2\<lparr>mass_col := mass_col md2 @ [p2]\<rparr>)))))"

fun add_lines :: "os_env \<Rightarrow> string \<Rightarrow> dish_metadata \<Rightarrow> string list \<Rightarrow> py_error + dish_metadata" where
  "add_lines env root_dir md [] = Inr md"
| "add_lines env root_dir md (line # rest) =
     (case add_line env root_dir md line of
        Inl e \<Rightarrow> Inl e
      | Inr md' \<Rightarrow> add_lines env root_dir md' rest)"

fun add_files :: "os_env \<Rightarrow> string \<Rightarrow> dish_metadata \<Rightarrow> string list \<Rightarrow> py_error + dish_metadata" where
  "add_files env root_dir md [] = Inr md"
| "add_files env root_dir md (csv_file # rest) =
     (case readlines env csv_file of
        Inl e \<Rightarrow> Inl e
      | Inr ls \<Rightarrow>
        (case add_lines env root_dir md ls of
           Inl e \<Rightarrow> Inl e
         | Inr md' \<Rightarrow> add_files env root_dir md' rest))"

text \<open>
  \<^verbatim>\<open>pd.DataFrame.from_dict\<close> on a dictionary of lists: the lists are the columns, the
  index is \<open>0, 1, ...\<close>, and lists of different lengths raise ValueError.
\<close>

definition from_dict :: "dish_metadata \<Rightarrow> py_error + dish_record dataframe" where
  "from_dict md =
     (if length (mass_col md) = length (dish_id_col md)
         \<and> length (calories_col md) = length (dish_id_col md)
      then Inr (zip [0..<length (dish_id_col md)]
                 (map (\<lambda>(i, m, c). \<lparr>dish_id = i, row_mass = m, row_calories = c\<rparr>)
                    (zip (dish_id_col md) (zip (mass_col md) (calories_col md)))))
      else Inl ValueError)"

definition csv_files :: "string \<Rightarrow> string list" where
  "csv_files root_dir =
     [path_join root_dir [''metadata'', ''dish_metadata_cafe1.csv''],
      path_join root_dir [''metadata'', ''dish_metadata_cafe2.csv'']]"

definition create_nutrition_df :: "os_env \<Rightarrow> string \<Rightarrow> py_error + dish_record dataframe" where
  "create_nutrition_df env root_dir =
     (case add_files env root_dir
             \<lparr>dish_id_col = [], mass_col = [], calories_col = []\<rparr> (csv_files root_dir) of
        Inl e \<Rightarrow> Inl e
      | Inr md \<Rightarrow> from_dict md)"

section \<open>nutrition5k/dataset.py: split_dataframe\<close>

text \<open>
  \<^verbatim>\<open>random.shuffle(x)\<close> as CPython implements it:
  \<^verbatim>\<open>for i in reversed(range(1, len(x))): j = randbelow(i + 1); x[i], x[j] = x[j], x[i]\<close>.
  The random source \<open>src\<close> gives the raw draw made at loop index \<open>i\<close>; \<open>randbelow\<close>
  reduces it below its bound.
\<close>

definition randbelow :: "(nat \<Rightarrow> nat) \<Rightarrow> nat \<Rightarrow> nat \<Rightarrow> nat" where
  "randbelow src i n = src i mod n"

definition swap :: "nat \<Rightarrow> nat \<Rightarrow> 'a list \<Rightarrow> 'a list" where
  "swap i j xs = xs[i := xs ! j, j := xs ! i]"

fun shuffle_from :: "(nat \<Rightarrow> nat) \<Rightarrow> nat \<Rightarrow> 'a list \<Rightarrow> 'a list" where
  "shuffle_from src 0 xs = xs"
| "shuffle_from src (Suc k) xs =
     shuffle_from src k (swap (Suc k) (randbelow src (Suc k) (Suc (Suc k))) xs)"

definition shuffle :: "(nat \<Rightarrow> nat) \<Rightarrow> 'a list \<Rightarrow> 'a list" where
  "shuffle src xs = shuffle_from src (length xs - 1) xs"

text \<open>
  The split specification \<^verbatim>\<open>split['train']\<close>, \<^verbatim>\<open>split['validation']\<close>. The
  fractions are exact reals and \<^verbatim>\<open>samples * split[...]\<close> is their exact product: the
  rounding of the float multiplication is not modelled.
\<close>

record split =
  train :: real
  validation :: real

definition split_dataframe ::
  "(nat \<Rightarrow> nat) \<Rightarrow> 'r dataframe \<Rightarrow> split \<Rightarrow>
     py_error + ('r dataframe \<times> 'r dataframe \<times> 'r dataframe)" where
  "split_dataframe src dataframe split =
     (let index = df_index dataframe;
          samples = length index;
          index = shuffle src index;
          train_end = py_int (real samples * train split);
          val_end = train_end + py_int (real samples * validation split);
          train_index = py_slice index None (Some train_end);
          val_index = py_slice index (Some train_end) (Some val_end);
          test_index = py_slice index (Some val_end) None
      in case loc dataframe train_index of Inl e \<Rightarrow> Inl e | Inr train_df \<Rightarrow>
         (case loc dataframe val_index of Inl e \<Rightarrow> Inl e | Inr val_df \<Rightarrow>
         (case loc dataframe test_index of Inl e \<Rightarrow> Inl e | Inr test_df \<Rightarrow>
            Inr (train_df, val_df, test_df))))"


section \<open>nutrition5k/dataset.py: Nutrition5kDataset\<close>

text \<open>
  The values a caller passes for \<^verbatim>\<open>dish_calories\<close> and \<^verbatim>\<open>root_dir\<close>: Python does not
  check their types, so a path may stand where a frame is meant.
\<close>

datatype arg = Path string | Frame "dish_record dataframe"

text \<open>An instance with its attributes \<^verbatim>\<open>dish_calories\<close>, \<^verbatim>\<open>root_dir\<close>, \<^verbatim>\<open>transform\<close>.\<close>

datatype dataset = Nutrition5kDataset arg arg "pipeline option"

text \<open>
  \<^verbatim>\<open>__init__(self, dish_calories, root_dir, transform=None)\<close>, called with some
  positional arguments and \<^verbatim>\<open>transform\<close> by keyword (\<open>None\<close> when it is left out): the
  two parameters without a default must both be given, and a third positional argument
  would be a second value for \<^verbatim>\<open>transform\<close>. Every other call is a TypeError.
\<close>

definition Nutrition5kDataset_init :: "arg list \<Rightarrow> pipeline option \<Rightarrow> py_error + dataset" where
  "Nutrition5kDataset_init positional transform =
     (case positional of
        [dish_calories, root_dir] \<Rightarrow> Inr (Nutrition5kDataset dish_calories root_dir transform)
      | _ \<Rightarrow> Inl TypeError)"

text \<open>\<^verbatim>\<open>__len__\<close>: \<^verbatim>\<open>len(self.dish_calories)\<close>, of a frame or of a string.\<close>

fun dataset_len :: "dataset \<Rightarrow> nat" where
  "dataset_len (Nutrition5kDataset (Frame df) _ _) = length df"
| "dataset_len (Nutrition5kDataset (Path s) _ _) = length s"

section \<open>train.py\<close>

text \<open>
  The names bound at the top level of \<^verbatim>\<open>nutrition5k/dataset.py\<close>, by its imports, its
  classes and its functions, in the order of the file (the attributes every module has,
  such as \<^verbatim>\<open>__name__\<close>, are left out).
\<close>

definition dataset_module :: "string list" where
  "dataset_module =
     [''os'', ''random'', ''np'', ''Image'', ''asarray'', ''pd'', ''torch'', ''transform'',
      ''Dataset'', ''transforms'', ''functional'',
      ''Resize'', ''CenterCrop'', ''RandomHorizontalFlip'', ''RandomVerticalFlip'',
      ''ToTensor'', ''Normalize'', ''create_nutrition_df'', ''split_dataframe'',
      ''Nutrition5kDataset'']"

text \<open>
  \<^verbatim>\<open>from module import a, b, c\<close>: the names are looked up in turn among those
  the module binds, and the first that is missing raises ImportError.
\<close>

fun import_from :: "string list \<Rightarrow> string list \<Rightarrow> py_error + unit" where
  "import_from bound [] = Inr ()"
| "import_from bound (name # names) =
     (if name \<in> set bound then import_from bound names else Inl (ImportError name))"

text \<open>The keys of the configuration that the modelled statements read.\<close>

record config =
  dataset_dir :: string
  config_split :: split
  batch_size :: nat
  epochs :: nat
  save_best_model_only :: bool

text \<open>The dictionary \<^verbatim>\<open>run_epoch\<close> returns.\<close>

record results =
  average_loss :: pyfloat
  mass_prediction_accuracy :: pyfloat
  calorie_prediction_accuracy :: pyfloat

text \<open>
  What the script takes from outside the two source files: the imports that follow the
  one from \<^verbatim>\<open>nutrition5k.dataset\<close> (their modules are not part of the sources), the
  result of \<^verbatim>\<open>parse_args\<close>, reading the configuration file, whatever the name
  \<^verbatim>\<open>Rescale\<close> is bound to, the permutation \<^verbatim>\<open>random_split\<close> draws, and the results
  of \<^verbatim>\<open>run_epoch\<close> for each epoch and phase.
\<close>

record run_env =
  later_imports :: "py_error + unit"
  parse_args :: "py_error + string"
  load_config :: "string \<Rightarrow> py_error + config"
  Rescale :: "size_arg \<Rightarrow> py_error + transform"
  randperm :: "nat \<Rightarrow> nat list"
  run_epoch :: "nat \<Rightarrow> string \<Rightarrow> results"

text \<open>
  \<^verbatim>\<open>torch.utils.data.random_split(dataset, lengths)\<close>: the lengths must add up to the
  size of the dataset, and the subsets are consecutive slices of one random permutation
  of its indices. A subset is modelled by its list of indices.
\<close>

fun subsets :: "nat list \<Rightarrow> int \<Rightarrow> int list \<Rightarrow> nat list list" where
  "subsets indices offset [] = []"
| "subsets indices offset (l # ls) =
     py_slice indices (Some offset) (Some (offset + l)) # subsets indices (offset + l) ls"

definition random_split :: "(nat \<Rightarrow> nat list) \<Rightarrow> nat \<Rightarrow> int list \<Rightarrow> py_error + nat list list" where
  "random_split perm n lengths =
     (if sum_list lengths \<noteq> int n then Inl ValueError
      else Inr (subsets (perm n) 0 lengths))"

text \<open>
  A \<^verbatim>\<open>DataLoader\<close> with its dataset, its batch size and its shuffle flag. The records it
  iterates are those of its dataset.
\<close>

datatype dataloader = DataLoader "nat list" nat bool

fun loader_records :: "dataloader \<Rightarrow> nat list" where
  "loader_records (DataLoader records _ _) = records"

text \<open>Lines 54 to 61: the dictionary \<^verbatim>\<open>dataloaders\<close>, as the list of its items.\<close>

definition dataloaders ::
  "config \<Rightarrow> nat list \<Rightarrow> nat list \<Rightarrow> nat list \<Rightarrow> (string \<times> dataloader) list" where
  "dataloaders cfg train_set val_set test_set =
     [(''train'', DataLoader train_set (batch_size cfg) True),
      (''val'', DataLoader val_set (batch_size cfg) False),
      (''test'', DataLoader val_set (batch_size cfg) False)]"

text \<open>\<^verbatim>\<open>d[key]\<close> on a dictionary.\<close>

definition getitem :: "(string \<times> 'v) list \<Rightarrow> string \<Rightarrow> py_error + 'v" where
  "getitem d key = (case map_of d key of None \<Rightarrow> Inl KeyError | Some v \<Rightarrow> Inr v)"

text \<open>
  The variables the epoch loop updates: the two best losses, and the epochs whose
  model state was written to \<^verbatim>\<open>epoch_N.pt\<close>.
\<close>

record train_state =
  best_val_loss :: pyfloat
  best_training_loss :: pyfloat
  checkpoints :: "nat list"

text \<open>Lines 88 to 120: one round of the loop over the epochs.\<close>

definition epoch_body :: "run_env \<Rightarrow> config \<Rightarrow> train_state \<Rightarrow> nat \<Rightarrow> train_state" where
  "epoch_body env cfg st epoch =
     (let training_loss = average_loss (run_epoch env epoch ''train'');
          val_loss = average_loss (run_epoch env epoch ''val'');
          st1 = (if flt val_loss (best_val_loss st) \<or> \<not> save_best_model_only cfg
                 then st\<lparr>checkpoints := checkpoints st @ [epoch], best_val_loss := val_loss\<rparr>
                 else st)
      in if flt training_loss (best_val_loss st1)
         then st1\<lparr>best_training_loss := training_loss\<rparr>
         else st1)"

definition epoch_loop :: "run_env \<Rightarrow> config \<Rightarrow> train_state" where
  "epoch_loop env cfg =
     foldl (epoch_body env cfg)
       \<lparr>best_val_loss = PInf, best_training_loss = PInf, checkpoints = []\<rparr>
       [0..<epochs cfg]"

text \<open>
  What a run leaves behind: the loader saved as \<^verbatim>\<open>test_loader.pt\<close>, the subsets
  \<^verbatim>\<open>random_split\<close> returned, the checkpoints, and the two losses passed to
  \<^verbatim>\<open>add_hparams\<close>.
\<close>

record run_result =
  test_loader :: dataloader
  split_sets :: "nat list list"
  saved_epochs :: "nat list"
  reported_best_training_loss :: pyfloat
  reported_best_validation_loss :: pyfloat

text \<open>Lines 47 to 130, from the size of the dataset on.\<close>

definition training_run :: "run_env \<Rightarrow> config \<Rightarrow> nat \<Rightarrow> py_error + run_result" where
  "training_run env cfg n_videos =
     (let train_size = py_int (train (config_split cfg) * real n_videos);
          val_size = py_int (validation (config_split cfg) * real n_videos);
          test_size = int n_videos - train_size - val_size
      in case random_split (randperm env) n_videos [train_size, val_size, test_size] of
           Inl e \<Rightarrow> Inl e
         | Inr sets \<Rightarrow>
            (case sets of
               [train_set, val_set, test_set] \<Rightarrow>
                 (case getitem (dataloaders cfg train_set val_set test_set) ''test'' of
                    Inl e \<Rightarrow> Inl e
                  | Inr saved \<Rightarrow>
                      let st = epoch_loop env cfg
                      in Inr \<lparr>test_loader = saved,
                              split_sets = sets,
                              saved_epochs = checkpoints st,
                              reported_best_training_loss = best_training_loss st,
                              reported_best_validation_loss = best_val_loss st\<rparr>)
             | _ \<Rightarrow> Inl ValueError))"

text \<open>Lines 38 to 45 and on: the block under \<^verbatim>\<open>if __name__ == '__main__'\<close>.\<close>

definition main_block :: "run_env \<Rightarrow> py_error + run_result" where
  "main_block env =
     (case parse_args env of Inl e \<Rightarrow> Inl e | Inr config_path \<Rightarrow>
     (case load_config env config_path of Inl e \<Rightarrow> Inl e | Inr cfg \<Rightarrow>
     (case Compose_init [Rescale env (SizeTuple [299, 299]), Inr ToTensor] of
        Inl e \<Rightarrow> Inl e
      | Inr pipeline \<Rightarrow>
     (case Nutrition5kDataset_init [Path (dataset_dir cfg)] (Some pipeline) of
        Inl e \<Rightarrow> Inl e
      | Inr transformed_dataset \<Rightarrow> training_run env cfg (dataset_len transformed_dataset)))))"

text \<open>
  The script from line 32 on, the imports of the third-party packages above it having
  succeeded.
\<close>

definition train_script :: "run_env \<Rightarrow> py_error + run_result" where
  "train_script env =
     (case import_from dataset_module [''Rescale'', ''ToTensor'', ''Nutrition5kDataset''] of
        Inl e \<Rightarrow> Inl e
      | Inr _ \<Rightarrow>
     (case later_imports env of
        Inl e \<Rightarrow> Inl e
      | Inr _ \<Rightarrow> main_block env))"

text \<open>
  The smallest of a list of losses, as \<open>min\<close> over floats computes it from infinity; the
  properties below compare the reported losses with it.
\<close>

definition min_loss :: "pyfloat list \<Rightarrow> pyfloat" where
  "min_loss xs = foldl (\<lambda>best x. if flt x best then x else best) PInf xs"

definition epoch_losses :: "run_env \<Rightarrow> config \<Rightarrow> string \<Rightarrow> pyfloat list" where
  "epoch_losses env cfg phase =
     map (\<lambda>epoch. average_loss (run_epoch env epoch phase)) [0..<epochs cfg]"

section \<open>Predicates for stating the properties\<close>

text \<open>The image that \<open>create_nutrition_df\<close> looks for on a metadata line exists.\<close>

definition has_image :: "os_env \<Rightarrow> string \<Rightarrow> string \<Rightarrow> bool" where
  "has_image env root_dir line =
     path_exists env (frame_path root_dir (hd (split_on CHR '','' line)))"

text \<open>Every dish collected so far has its image.\<close>

definition frames_exist :: "os_env \<Rightarrow> string \<Rightarrow> dish_metadata \<Rightarrow> bool" where
  "frames_exist env root_dir md =
     list_all (\<lambda>d. path_exists env (frame_path root_dir d)) (dish_id_col md)"

section \<open>Concrete inputs\<close>

text \<open>
  The end-to-end scenario of the specification: a dataset root \<open>/data\<close> whose first
  metadata file holds the rows \<open>D1,250.0,100.5\<close> and \<open>D2,400.0,150.0\<close>, both with
  their image present, and whose second metadata file is empty.
\<close>

definition scenario_env :: os_env where
  "scenario_env =
     \<lparr>path_exists = (\<lambda>p. p = ''/data/imagery/side_angles/D1/camera_A/1.jpg''
                         \<or> p = ''/data/imagery/side_angles/D2/camera_A/1.jpg''),
      readlines = (\<lambda>p. if p = ''/data/metadata/dish_metadata_cafe1.csv''
                        then Inr [''D1,250.0,100.5'' @ [CHR 0x0A], ''D2,400.0,150.0'' @ [CHR 0x0A]]
                        else if p = ''/data/metadata/dish_metadata_cafe2.csv'' then Inr []
                        else Inl FileNotFoundError),
      float_str = (\<lambda>s. if s = ''250.0'' then Inr (Fin 250)
                        else if s = ''400.0'' then Inr (Fin 400)
                        else Inl ValueError)\<rparr>"

definition scenario_df :: "dish_record dataframe" where
  "scenario_df =
     [(0, \<lparr>dish_id = ''D1'', row_mass = ''100.5'' @ [CHR 0x0A], row_calories = 250\<rparr>),
      (1, \<lparr>dish_id = ''D2'', row_mass = ''150.0'' @ [CHR 0x0A], row_calories = 400\<rparr>)]"



definition zero_draws :: "nat \<Rightarrow> nat" where
  "zero_draws i = 0"

text \<open>The scenario's root with the image of \<open>D2\<close> missing.\<close>

definition missing_image_env :: os_env where
  "missing_image_env =
     scenario_env\<lparr>path_exists := (\<lambda>p. p = ''/data/imagery/side_angles/D1/camera_A/1.jpg'')\<rparr>"

text \<open>
  One raw sample, an image of one pixel, in a world that holds nothing else, and a
  stand-in for the libraries: its \<open>resize\<close> repeats the pixel, and its flips and its
  \<open>normalize\<close> reject an ndarray with a TypeError, as torchvision's do.
\<close>

definition raw_sample :: sample where
  "raw_sample =
     \<lparr>image = Ndarray \<lparr>shape = [1, 1, 3], data = [10, 20, 30]\<rparr>,
      mass = Ndarray \<lparr>shape = [1, 1], data = [Fin (201 / 2)]\<rparr>,
      calories = Ndarray \<lparr>shape = [1, 1], data = [Fin 250]\<rparr>\<rparr>"

definition one_sample_world :: world where
  "one_sample_world = \<lparr>heap = (\<lambda>r. raw_sample), next_ref = 1, rng = 0\<rparr>"

definition tensors_only :: "real arr \<Rightarrow> py_error + real arr" where
  "tensors_only x = (case x of Ndarray _ \<Rightarrow> Inl TypeError | Tensor _ \<Rightarrow> Inr x)"

definition stand_in_lib :: lib where
  "stand_in_lib =
     \<lparr>interpolate = (\<lambda>a h w k. data a ! (k mod 3)),
      center_crop = (\<lambda>x output_size. tensors_only x),
      hflip = tensors_only,
      vflip = tensors_only,
      normalize = (\<lambda>x means stds. tensors_only x),
      torch_rand = (\<lambda>n. 0)\<rparr>"

text \<open>
  A run over eight records, half of them for training and a quarter for validation,
  with the identity as the permutation of \<open>random_split\<close>, and two epochs whose
  training losses are 5 and 4 and whose validation losses are 1 and 2.
\<close>

definition two_epoch_config :: config where
  "two_epoch_config =
     \<lparr>dataset_dir = ''/data'',
      config_split = \<lparr>train = 1 / 2, validation = 1 / 4\<rparr>,
      batch_size = 2,
      epochs = 2,
      save_best_model_only = False\<rparr>"

definition two_epoch_env :: run_env where
  "two_epoch_env =
     \<lparr>later_imports = Inr (),
      parse_args = Inr ''config.yml'',
      load_config = (\<lambda>path. Inr two_epoch_config),
      Rescale = Resize_init,
      randperm = (\<lambda>n. [0..<n]),
      run_epoch = (\<lambda>epoch phase.
         \<lparr>average_loss =
            (if phase = ''train'' then (if epoch = 0 then Fin 5 else Fin 4)
             else (if epoch = 0 then Fin 1 else Fin 2)),
          mass_prediction_accuracy = Fin 0,
          calorie_prediction_accuracy = Fin 0\<rparr>)\<rparr>"

section \<open>Properties of split_dataframe\<close>

lemma length_swap: "length (swap i j xs) = length xs"
  by (simp add: swap_def)

lemma mset_swap_list:
  "i < length xs \<Longrightarrow> j < length xs \<Longrightarrow> mset (swap i j xs) = mset xs"
  unfolding swap_def by (rule mset_swap)


lemma mset_shuffle_from:
  "k < length xs \<Longrightarrow> mset (shuffle_from src k xs) = mset xs"
proof (induction k arbitrary: xs)
  case 0
  then show ?case by simp
next
  case (Suc k)
  have j: "randbelow src (Suc k) (Suc (Suc k)) < length xs"
  proof -
    have "randbelow src (Suc k) (Suc (Suc k)) < Suc (Suc k)"
      by (simp add: randbelow_def)
    with Suc.prems show ?thesis by linarith
  qed
  have "k < length (swap (Suc k) (randbelow src (Suc k) (Suc (Suc k))) xs)"
    using Suc.prems by (simp add: length_swap)
  then have "mset (shuffle_from src (Suc k) xs) =
      mset (swap (Suc k) (randbelow src (Suc k) (Suc (Suc k))) xs)"
    using Suc.IH by simp
  also have "\<dots> = mset xs"
    using Suc.prems j by (rule mset_swap_list)
  finally show ?case .
qed


lemma mset_shuffle: "mset (shuffle src xs) = mset xs"
proof (cases xs)
  case Nil
  then show ?thesis by (simp add: shuffle_def)
next
  case (Cons a as)
  then have "length xs - 1 < length xs" by simp
  then show ?thesis unfolding shuffle_def by (rule mset_shuffle_from)
qed

lemma set_shuffle: "set (shuffle src xs) = set xs"
  using mset_shuffle [of src xs] by (metis set_mset_mset)

lemma distinct_shuffle: "distinct (shuffle src xs) = distinct xs"
  using mset_shuffle [of src xs] by (metis mset_eq_imp_distinct_iff)

lemma py_int_nonneg: "0 \<le> x \<Longrightarrow> 0 \<le> py_int x"
  by (simp add: py_int_def)

lemma py_slice_prefix: "0 \<le> a \<Longrightarrow> py_slice xs None (Some a) = take (nat a) xs"
  by (simp add: py_slice_def slice_bound_def Let_def min_def)

lemma py_slice_middle:
  "0 \<le> a \<Longrightarrow> a \<le> b \<Longrightarrow>
     py_slice xs (Some a) (Some b) = take (nat b - nat a) (drop (nat a) xs)"
  by (auto simp add: py_slice_def slice_bound_def Let_def min_def)

lemma py_slice_suffix: "0 \<le> b \<Longrightarrow> py_slice xs (Some b) None = drop (nat b) xs"
  by (auto simp add: py_slice_def slice_bound_def Let_def min_def)

lemma take_middle_drop:
  "a \<le> b \<Longrightarrow> take a xs @ take (b - a) (drop a xs) @ drop b xs = xs"
proof -
  assume ab: "a \<le> b"
  have "take (b - a) (drop a xs) @ drop b xs = drop a xs"
  proof -
    have "drop b xs = drop (b - a) (drop a xs)" using ab by simp
    then show ?thesis by (simp only: append_take_drop_id)
  qed
  then show ?thesis by (simp only: append_take_drop_id)
qed

lemma filter_label_single:
  "distinct (map fst df) \<Longrightarrow> p \<in> set df \<Longrightarrow> filter (\<lambda>q. fst q = fst p) df = [p]"
proof (induction df)
  case Nil
  then show ?case by simp
next
  case (Cons q df)
  show ?case
  proof (cases "p = q")
    case True
    have "filter (\<lambda>r. fst r = fst q) df = []"
      using Cons.prems(1) by (auto simp: filter_empty_conv image_iff)
    with True show ?thesis by simp
  next
    case False
    with Cons.prems have pin: "p \<in> set df" by simp
    then have "fst q \<noteq> fst p" using Cons.prems(1) by (auto simp: image_iff)
    with Cons.IH pin Cons.prems(1) show ?thesis by simp
  qed
qed

lemma rows_of_append: "rows_of df (xs @ ys) = rows_of df xs @ rows_of df ys"
  by (simp add: rows_of_def)

lemma rows_of_labels:
  "distinct (map fst df) \<Longrightarrow> set labels \<subseteq> set (map fst df) \<Longrightarrow>
     map fst (rows_of df labels) = labels"
proof (induction labels)
  case Nil
  then show ?case by (simp add: rows_of_def)
next
  case (Cons l ls)
  from Cons.prems(2) obtain p where p: "p \<in> set df" "fst p = l" by auto
  with Cons.prems(1) have "filter (\<lambda>q. fst q = l) df = [p]"
    using filter_label_single [of df p] by simp
  moreover have "map fst (rows_of df ls) = ls" using Cons by simp
  ultimately show ?case using p by (simp add: rows_of_def)
qed

lemma rows_of_self:
  "distinct (map fst df) \<Longrightarrow> set ps \<subseteq> set df \<Longrightarrow> rows_of df (map fst ps) = ps"
proof (induction ps)
  case Nil
  then show ?case by (simp add: rows_of_def)
next
  case (Cons p ps)
  then have "filter (\<lambda>q. fst q = fst p) df = [p]"
    using filter_label_single [of df p] by simp
  moreover have "rows_of df (map fst ps) = ps" using Cons by simp
  ultimately show ?case by (simp add: rows_of_def)
qed

lemma mset_rows_of_cong:
  "mset xs = mset ys \<Longrightarrow> mset (rows_of df xs) = mset (rows_of df ys)"
proof -
  assume eq: "mset xs = mset ys"
  have "mset (rows_of df zs) = sum_mset (image_mset (\<lambda>l. mset (filter (\<lambda>p. fst p = l) df)) (mset zs))" for zs
    by (induction zs) (simp_all add: rows_of_def)
  then show ?thesis using eq by simp
qed

lemma mset_rows_of_perm:
  "distinct (map fst df) \<Longrightarrow> mset labels = mset (map fst df) \<Longrightarrow>
     mset (rows_of df labels) = mset df"
  using mset_rows_of_cong [of labels "map fst df" df] rows_of_self [of df df] by simp

lemma loc_rows_of:
  "set labels \<subseteq> set (df_index df) \<Longrightarrow> loc df labels = Inr (rows_of df labels)"
  by (auto simp add: loc_def list_all_iff)

lemma split_dataframe_result:
  fixes df :: "'r dataframe" and src :: "nat \<Rightarrow> nat"
  assumes d: "distinct (df_index df)" and f: "0 \<le> train sp" and g: "0 \<le> validation sp"
  defines "a \<equiv> nat (py_int (real (length df) * train sp))"
  defines "b \<equiv> a + nat (py_int (real (length df) * validation sp))"
  defines "idx \<equiv> shuffle src (df_index df)"
  shows "split_dataframe src df sp =
     Inr (rows_of df (take a idx), rows_of df (take (b - a) (drop a idx)), rows_of df (drop b idx))"
proof -
  let ?te = "py_int (real (length df) * train sp)"
  let ?ve = "?te + py_int (real (length df) * validation sp)"
  have te: "0 \<le> ?te" using f by (intro py_int_nonneg) simp
  have ve: "?te \<le> ?ve" using g py_int_nonneg [of "real (length df) * validation sp"] by simp
  have na: "nat ?te = a" by (simp add: a_def)
  have nb: "nat ?ve = b" using te ve by (simp add: a_def b_def nat_add_distrib)
  have s1: "py_slice idx None (Some ?te) = take a idx"
    using te by (simp add: py_slice_prefix na)
  have s2: "py_slice idx (Some ?te) (Some ?ve) = take (b - a) (drop a idx)"
    using py_slice_middle [OF te ve, of idx] by (simp only: na nb)
  have s3: "py_slice idx (Some ?ve) None = drop b idx"
    using py_slice_suffix [of ?ve idx] te ve by (simp only: nb)
  have sub: "set idx = set (df_index df)" by (simp add: idx_def set_shuffle)
  have l1: "loc df (take a idx) = Inr (rows_of df (take a idx))"
    using sub set_take_subset [of a idx] by (intro loc_rows_of) blast
  have l2: "loc df (take (b - a) (drop a idx)) = Inr (rows_of df (take (b - a) (drop a idx)))"
    using sub set_take_subset [of "b - a" "drop a idx"] set_drop_subset [of a idx]
    by (intro loc_rows_of) blast
  have l3: "loc df (drop b idx) = Inr (rows_of df (drop b idx))"
    using sub set_drop_subset [of b idx] by (intro loc_rows_of) blast
  have len: "length (df_index df) = length df" by (simp add: df_index_def)
  show ?thesis
    unfolding split_dataframe_def Let_def len idx_def [symmetric] s1 s2 s3 l1 l2 l3
    by simp
qed

lemma df_index_rows_of:
  "distinct (df_index df) \<Longrightarrow> set labels \<subseteq> set (df_index df) \<Longrightarrow>
     df_index (rows_of df labels) = labels"
  unfolding df_index_def by (rule rows_of_labels)





text \<open>
  Claim C4. For every frame with distinct index labels (the default index that
  \<open>from_dict\<close> builds is such a one) and every split specification of non-negative
  fractions with train + validation \<open>\<le>\<close> 1, whatever the random draws, \<open>split_dataframe\<close>
  returns three frames: their index labels are pairwise disjoint, together they are the
  full index, the three sizes add up to the number of records, and every record is in
  exactly one of the three frames.
\<close>

theorem split_dataframe_partition:
  fixes df :: "'r dataframe"
  assumes d: "distinct (df_index df)"
    and f: "0 \<le> train sp" and g: "0 \<le> validation sp"
    and fg: "train sp + validation sp \<le> 1"
  shows "\<exists>tr va te. split_dataframe src df sp = Inr (tr, va, te)
     \<and> set (df_index tr) \<inter> set (df_index va) = {}
     \<and> set (df_index tr) \<inter> set (df_index te) = {}
     \<and> set (df_index va) \<inter> set (df_index te) = {}
     \<and> set (df_index tr) \<union> set (df_index va) \<union> set (df_index te) = set (df_index df)
     \<and> length tr + length va + length te = length df
     \<and> distinct (df_index tr @ df_index va @ df_index te)
     \<and> mset (tr @ va @ te) = mset df"
proof -
  define a where "a = nat (py_int (real (length df) * train sp))"
  define b where "b = a + nat (py_int (real (length df) * validation sp))"
  define idx where "idx = shuffle src (df_index df)"
  define tr where "tr = rows_of df (take a idx)"
  define va where "va = rows_of df (take (b - a) (drop a idx))"
  define te where "te = rows_of df (drop b idx)"
  have res: "split_dataframe src df sp = Inr (tr, va, te)"
    unfolding tr_def va_def te_def a_def b_def idx_def
    using d f g by (rule split_dataframe_result)
  have ab: "a \<le> b" by (simp add: b_def)
  have cat: "take a idx @ take (b - a) (drop a idx) @ drop b idx = idx"
    using ab by (rule take_middle_drop)
  have sub: "set idx = set (df_index df)" by (simp add: idx_def set_shuffle)
  have didx: "distinct idx" using d by (simp add: idx_def distinct_shuffle)
  have i1: "df_index tr = take a idx"
    unfolding tr_def using d sub set_take_subset [of a idx]
    by (intro df_index_rows_of) blast+
  have i2: "df_index va = take (b - a) (drop a idx)"
    unfolding va_def
    using d sub set_take_subset [of "b - a" "drop a idx"] set_drop_subset [of a idx]
    by (intro df_index_rows_of) blast+
  have i3: "df_index te = drop b idx"
    unfolding te_def using d sub set_drop_subset [of b idx]
    by (intro df_index_rows_of) blast+
  have icat: "df_index tr @ df_index va @ df_index te = idx"
    by (simp only: i1 i2 i3 cat)
  have dis: "distinct (df_index tr @ df_index va @ df_index te)"
    using didx by (simp only: icat)
  have un: "set (df_index tr) \<union> set (df_index va) \<union> set (df_index te) = set (df_index df)"
  proof -
    have "set (df_index tr @ df_index va @ df_index te) = set idx" by (simp only: icat)
    then show ?thesis using sub by auto
  qed
  have rows: "tr @ va @ te = rows_of df idx"
  proof -
    have "tr @ va @ te = rows_of df (take a idx @ take (b - a) (drop a idx) @ drop b idx)"
      by (simp only: tr_def va_def te_def rows_of_append)
    then show ?thesis by (simp only: cat)
  qed
  have ms: "mset (tr @ va @ te) = mset df"
  proof -
    have "mset idx = mset (map fst df)"
      by (simp add: idx_def mset_shuffle df_index_def)
    with d show ?thesis unfolding rows df_index_def by (intro mset_rows_of_perm)
  qed
  have len: "length tr + length va + length te = length df"
  proof -
    have "length (tr @ va @ te) = length df"
      using ms by (metis size_mset)
    then show ?thesis by simp
  qed
  from dis have "set (df_index tr) \<inter> set (df_index va) = {}"
    and "set (df_index tr) \<inter> set (df_index te) = {}"
    and "set (df_index va) \<inter> set (df_index te) = {}"
    by auto
  with res un len dis ms show ?thesis by blast
qed

theorem split_dataframe_partition_witness:
  "distinct (df_index scenario_df)
   \<and> 0 \<le> train \<lparr>train = 1/2, validation = 1/2\<rparr>
   \<and> 0 \<le> validation \<lparr>train = 1/2, validation = 1/2\<rparr>
   \<and> train \<lparr>train = 1/2, validation = 1/2\<rparr> + validation \<lparr>train = 1/2, validation = 1/2\<rparr> \<le> 1
   \<and> (\<exists>tr va te.
         split_dataframe zero_draws scenario_df \<lparr>train = 1/2, validation = 1/2\<rparr> = Inr (tr, va, te)
       \<and> set (df_index tr) \<inter> set (df_index va) = {}
       \<and> set (df_index tr) \<inter> set (df_index te) = {}
       \<and> set (df_index va) \<inter> set (df_index te) = {}
       \<and> set (df_index tr) \<union> set (df_index va) \<union> set (df_index te) = set (df_index scenario_df)
       \<and> length tr + length va + length te = length scenario_df
       \<and> distinct (df_index tr @ df_index va @ df_index te)
       \<and> mset (tr @ va @ te) = mset scenario_df)"
proof -
  have d: "distinct (df_index scenario_df)"
    by (simp add: scenario_df_def df_index_def)
  show ?thesis
    using d split_dataframe_partition [OF d, of "\<lparr>train = 1/2, validation = 1/2\<rparr>" zero_draws]
    by simp
qed




section \<open>Properties of create_nutrition_df\<close>

lemma split_on_nonempty: "split_on c s \<noteq> []"
  by (induction s) (auto split: list.splits)

lemma split_on_nth0: "split_on c s ! 0 = hd (split_on c s)"
  using split_on_nonempty [of c s] by (simp add: hd_conv_nth)

lemma item_head: "item (split_on c s) 0 = Inr (hd (split_on c s))"
  using split_on_nonempty [of c s] by (simp add: item_def split_on_nth0)

lemma add_line_missing:
  "\<not> path_exists env (frame_path root_dir (hd (split_on CHR '','' line))) \<Longrightarrow>
     add_line env root_dir md line = Inr md"
  by (simp add: add_line_def item_head)

lemma add_line_unfold:
  "add_line env root_dir md line =
     (if \<not> path_exists env (frame_path root_dir (hd (split_on CHR '','' line))) then Inr md
      else
        (case item (split_on CHR '','' line) 1 of Inl e \<Rightarrow> Inl e | Inr p1 \<Rightarrow>
        (case float_str env p1 of Inl e \<Rightarrow> Inl e | Inr x \<Rightarrow>
        (case int_of_float x of Inl e \<Rightarrow> Inl e | Inr c \<Rightarrow>
        (case item (split_on CHR '','' line) 2 of Inl e \<Rightarrow> Inl e | Inr p2 \<Rightarrow>
           Inr (md\<lparr>dish_id_col := dish_id_col md @ [hd (split_on CHR '','' line)],
                   calories_col := calories_col md @ [c],
                   mass_col := mass_col md @ [p2]\<rparr>))))))"
  by (simp add: add_line_def item_head Let_def split: sum.splits)

lemma add_line_present:
  assumes "add_line env root_dir md line = Inr md'"
    and "path_exists env (frame_path root_dir (hd (split_on CHR '','' line)))"
  shows "3 \<le> length (split_on CHR '','' line)
     \<and> dish_id_col md' = dish_id_col md @ [hd (split_on CHR '','' line)]
     \<and> length (mass_col md') = Suc (length (mass_col md))
     \<and> length (calories_col md') = Suc (length (calories_col md))"
proof -
  let ?parts = "split_on CHR '','' line"
  from assms obtain p1 x c p2 where "item ?parts 2 = Inr p2"
    and "md' = md\<lparr>dish_id_col := dish_id_col md @ [hd ?parts],
                     calories_col := calories_col md @ [c],
                     mass_col := mass_col md @ [p2]\<rparr>"
    unfolding add_line_unfold by (auto split: sum.splits)
  then show ?thesis by (auto simp add: item_def split: if_splits)
qed


lemma add_line_frames:
  "add_line env root_dir md line = Inr md' \<Longrightarrow> frames_exist env root_dir md \<Longrightarrow>
     frames_exist env root_dir md'"
  using add_line_missing [of env root_dir line md] add_line_present [of env root_dir md line md']
  by (cases "path_exists env (frame_path root_dir (hd (split_on CHR '','' line)))")
     (auto simp add: frames_exist_def)

lemma add_lines_frames:
  "add_lines env root_dir md ls = Inr md' \<Longrightarrow> frames_exist env root_dir md \<Longrightarrow>
     frames_exist env root_dir md'"
proof (induction ls arbitrary: md)
  case Nil
  then show ?case by simp
next
  case (Cons l ls)
  then show ?case by (auto split: sum.splits dest: add_line_frames)
qed

lemma add_files_frames:
  "add_files env root_dir md fs = Inr md' \<Longrightarrow> frames_exist env root_dir md \<Longrightarrow>
     frames_exist env root_dir md'"
proof (induction fs arbitrary: md)
  case Nil
  then show ?case by simp
next
  case (Cons f fs)
  then show ?case by (auto split: sum.splits dest: add_lines_frames)
qed

lemma from_dict_rows:
  assumes "from_dict md = Inr df"
  shows "map snd df =
     map (\<lambda>(i, m, c). \<lparr>dish_id = i, row_mass = m, row_calories = c\<rparr>)
       (zip (dish_id_col md) (zip (mass_col md) (calories_col md)))"
proof -
  from assms have l: "length (mass_col md) = length (dish_id_col md)"
      "length (calories_col md) = length (dish_id_col md)"
    and df: "df = zip [0..<length (dish_id_col md)]
       (map (\<lambda>(i, m, c). \<lparr>dish_id = i, row_mass = m, row_calories = c\<rparr>)
          (zip (dish_id_col md) (zip (mass_col md) (calories_col md))))"
    by (auto simp add: from_dict_def split: if_splits)
  show ?thesis unfolding df by (rule map_snd_zip) (simp add: l)
qed

lemma from_dict_ids:
  assumes "from_dict md = Inr df"
  shows "map (\<lambda>r. dish_id (snd r)) df = dish_id_col md"
proof -
  from assms have l: "length (mass_col md) = length (dish_id_col md)"
      "length (calories_col md) = length (dish_id_col md)"
    by (auto simp add: from_dict_def split: if_splits)
  have "map (\<lambda>r. dish_id (snd r)) df = map dish_id (map snd df)"
    by simp
  also have "\<dots> = map fst (zip (dish_id_col md) (zip (mass_col md) (calories_col md)))"
    unfolding from_dict_rows [OF assms] by (simp add: split_def)
  also have "\<dots> = dish_id_col md"
    by (rule map_fst_zip) (simp add: l)
  finally show ?thesis .
qed

lemma from_dict_index:
  "from_dict md = Inr df \<Longrightarrow> df_index df = [0..<length (dish_id_col md)]"
  by (auto simp add: from_dict_def df_index_def split: if_splits)

lemma create_nutrition_df_frames:
  assumes "create_nutrition_df env root_dir = Inr df"
  shows "list_all (\<lambda>r. path_exists env (frame_path root_dir (dish_id (snd r)))) df"
proof -
  from assms obtain md where
    md: "add_files env root_dir \<lparr>dish_id_col = [], mass_col = [], calories_col = []\<rparr>
           (csv_files root_dir) = Inr md"
    and fd: "from_dict md = Inr df"
    by (auto simp add: create_nutrition_df_def split: sum.splits)
  have "frames_exist env root_dir \<lparr>dish_id_col = [], mass_col = [], calories_col = []\<rparr>"
    by (simp add: frames_exist_def)
  with md have "frames_exist env root_dir md" by (rule add_files_frames)
  then have "list_all (\<lambda>d. path_exists env (frame_path root_dir d))
       (map (\<lambda>r. dish_id (snd r)) df)"
    using from_dict_ids [OF fd] by (simp add: frames_exist_def)
  then show ?thesis by (simp add: list_all_iff)
qed

lemma add_lines_skip:
  "add_lines env root_dir md (filter (has_image env root_dir) ls) = add_lines env root_dir md ls"
proof (induction ls arbitrary: md)
  case Nil
  then show ?case by simp
next
  case (Cons l ls)
  show ?case
  proof (cases "has_image env root_dir l")
    case True
    then show ?thesis using Cons.IH by (simp split: sum.splits)
  next
    case False
    then have "add_line env root_dir md l = Inr md"
      by (simp add: has_image_def add_line_missing)
    with False show ?thesis using Cons.IH by simp
  qed
qed


lemma add_lines_lengths: 
  "add_lines env root_dir md ls = Inr md' \<Longrightarrow>
    length (mass_col md) = length (dish_id_col md) \<Longrightarrow> length (calories_col md) = length (dish_id_col md) \<Longrightarrow>
    length (mass_col md') = length (dish_id_col md') \<and> length (calories_col md') = length (dish_id_col md')"
proof (induction ls arbitrary: md)
  case Nil
  then show ?case by simp
next
  case (Cons l ls)
  from Cons.prems obtain md1 where a: "add_line env root_dir md l = Inr md1"
    and b: "add_lines env root_dir md1 ls = Inr md'"
    by (auto split: sum.splits)
  have "length (mass_col md1) = length (dish_id_col md1) \<and> length (calories_col md1) = length (dish_id_col md1)"
  proof (cases "path_exists env (frame_path root_dir (hd (split_on CHR '','' l)))")
    case True
    from add_line_present [OF a True] Cons.prems(2,3) show ?thesis by simp
  next
    case False
    with a have "md1 = md" by (simp add: add_line_missing)
    with Cons.prems(2,3) show ?thesis by simp
  qed
  with Cons.IH [OF b] show ?case by simp
qed



lemma csv_files_data:
  "csv_files ''/data'' =
     [''/data/metadata/dish_metadata_cafe1.csv'', ''/data/metadata/dish_metadata_cafe2.csv'']"
  by (simp add: csv_files_def path_join_def join2_def)

lemma missing_image_index:
  "create_nutrition_df missing_image_env ''/data'' =
     Inr [(0, \<lparr>dish_id = ''D1'', row_mass = ''100.5'' @ [CHR 0x0A], row_calories = 250\<rparr>)]"
  by (simp add: create_nutrition_df_def csv_files_data missing_image_env_def scenario_env_def
      add_line_def item_def frame_path_def path_join_def join2_def py_int_def from_dict_def)

lemma scenario_index: "create_nutrition_df scenario_env ''/data'' = Inr scenario_df"
  by (simp add: create_nutrition_df_def csv_files_data scenario_env_def add_line_def item_def
      frame_path_def path_join_def join2_def py_int_def from_dict_def scenario_df_def)

text \<open>
  When the loop over the files finishes, the three columns have one length, so
  \<open>from_dict\<close> builds a frame; its index is \<open>0, 1, ...\<close>, hence without repetition.
\<close>

lemma add_files_lengths:
  "add_files env root_dir md fs = Inr md' \<Longrightarrow>
     length (mass_col md) = length (dish_id_col md) \<Longrightarrow>
     length (calories_col md) = length (dish_id_col md) \<Longrightarrow>
     length (mass_col md') = length (dish_id_col md')
       \<and> length (calories_col md') = length (dish_id_col md')"
proof (induction fs arbitrary: md)
  case Nil
  then show ?case by simp
next
  case (Cons f fs)
  from Cons.prems(1) obtain ls md1 where "readlines env f = Inr ls"
    and b: "add_lines env root_dir md ls = Inr md1"
    and c: "add_files env root_dir md1 fs = Inr md'"
    by (auto split: sum.splits)
  from add_lines_lengths [OF b Cons.prems(2,3)] Cons.IH [OF c] show ?case by simp
qed

lemma create_nutrition_df_index:
  assumes "create_nutrition_df env root_dir = Inr df"
  shows "df_index df = [0..<length df]"
proof -
  from assms obtain md where fd: "from_dict md = Inr df"
    by (auto simp add: create_nutrition_df_def split: sum.splits)
  from from_dict_index [OF fd] have "df_index df = [0..<length (dish_id_col md)]" .
  moreover from this have "length df = length (dish_id_col md)"
    by (metis df_index_def length_map length_upt minus_nat.diff_0)
  ultimately show ?thesis by simp
qed

lemma create_nutrition_df_distinct:
  "create_nutrition_df env root_dir = Inr df \<Longrightarrow> distinct (df_index df)"
  by (simp add: create_nutrition_df_index)

lemma create_nutrition_df_no_ValueError:
  assumes "add_files env root_dir \<lparr>dish_id_col = [], mass_col = [], calories_col = []\<rparr>
             (csv_files root_dir) = Inr md"
  shows "\<exists>df. create_nutrition_df env root_dir = Inr df"
proof -
  from add_files_lengths [OF assms]
  have "length (mass_col md) = length (dish_id_col md)
      \<and> length (calories_col md) = length (dish_id_col md)"
    by simp
  then show ?thesis by (simp add: create_nutrition_df_def assms from_dict_def)
qed

text \<open>
  Claim C7. A metadata row whose image \<open>imagery/side_angles/<dish_id>/camera_A/1.jpg\<close>
  under the dataset root does not exist is skipped: the loop body returns the collected
  columns unchanged and raises nothing, so the lines without an image can be dropped
  from a file without changing what the loop returns. Every record of a returned index
  has an existing image.
\<close>

theorem missing_image_row_excluded:
  "(\<not> has_image env root_dir line \<longrightarrow> add_line env root_dir md line = Inr md)
   \<and> add_lines env root_dir md (filter (has_image env root_dir) ls) = add_lines env root_dir md ls
   \<and> (create_nutrition_df env root_dir = Inr df \<longrightarrow>
        list_all (\<lambda>r. path_exists env (frame_path root_dir (dish_id (snd r)))) df)"
proof -
  have "\<not> has_image env root_dir line \<longrightarrow> add_line env root_dir md line = Inr md"
    by (simp add: has_image_def add_line_missing)
  moreover have "add_lines env root_dir md (filter (has_image env root_dir) ls)
      = add_lines env root_dir md ls"
    by (rule add_lines_skip)
  moreover have "create_nutrition_df env root_dir = Inr df \<longrightarrow>
        list_all (\<lambda>r. path_exists env (frame_path root_dir (dish_id (snd r)))) df"
    using create_nutrition_df_frames [of env root_dir df] by blast
  ultimately show ?thesis by blast
qed

theorem missing_image_row_excluded_witness:
  "\<not> has_image missing_image_env ''/data'' (''D2,400.0,150.0'' @ [CHR 0x0A])
   \<and> add_line missing_image_env ''/data''
        \<lparr>dish_id_col = [''D1''], mass_col = [''100.5'' @ [CHR 0x0A]], calories_col = [250]\<rparr>
        (''D2,400.0,150.0'' @ [CHR 0x0A])
      = Inr \<lparr>dish_id_col = [''D1''], mass_col = [''100.5'' @ [CHR 0x0A]], calories_col = [250]\<rparr>
   \<and> create_nutrition_df missing_image_env ''/data'' =
       Inr [(0, \<lparr>dish_id = ''D1'', row_mass = ''100.5'' @ [CHR 0x0A], row_calories = 250\<rparr>)]
   \<and> path_exists missing_image_env (frame_path ''/data'' ''D1'')"
proof -
  have h: "\<not> has_image missing_image_env ''/data'' (''D2,400.0,150.0'' @ [CHR 0x0A])"
    by (simp add: has_image_def missing_image_env_def scenario_env_def frame_path_def
        path_join_def join2_def)
  note t = missing_image_row_excluded [of missing_image_env "''/data''"
      "''D2,400.0,150.0'' @ [CHR 0x0A]"
      "\<lparr>dish_id_col = [''D1''], mass_col = [''100.5'' @ [CHR 0x0A]], calories_col = [250]\<rparr>"
      "[]"
      "[(0, \<lparr>dish_id = ''D1'', row_mass = ''100.5'' @ [CHR 0x0A], row_calories = 250\<rparr>)]"]
  from t h have a: "add_line missing_image_env ''/data''
        \<lparr>dish_id_col = [''D1''], mass_col = [''100.5'' @ [CHR 0x0A]], calories_col = [250]\<rparr>
        (''D2,400.0,150.0'' @ [CHR 0x0A])
      = Inr \<lparr>dish_id_col = [''D1''], mass_col = [''100.5'' @ [CHR 0x0A]], calories_col = [250]\<rparr>"
    by blast
  have "list_all (\<lambda>r. path_exists missing_image_env (frame_path ''/data'' (dish_id (snd r))))
     [(0::nat, \<lparr>dish_id = ''D1'', row_mass = ''100.5'' @ [CHR 0x0A], row_calories = 250\<rparr>)]"
    by (rule mp [OF t [THEN conjunct2, THEN conjunct2] missing_image_index])
  then have b: "path_exists missing_image_env (frame_path ''/data'' ''D1'')" by simp
  from h a missing_image_index b show ?thesis by blast
qed




section \<open>Properties of the transforms\<close>

lemma length_concat_uniform:
  "\<forall>xs \<in> set xss. length xs = n \<Longrightarrow> length (concat xss) = length xss * n"
  by (induction xss) simp_all

lemma nth_concat_uniform:
  "\<forall>xs \<in> set xss. length xs = n \<Longrightarrow> k < length xss \<Longrightarrow> j < n \<Longrightarrow>
     concat xss ! (k * n + j) = xss ! k ! j"
proof (induction xss arbitrary: k)
  case Nil
  then show ?case by simp
next
  case (Cons xs xss)
  have n: "length xs = n" using Cons.prems(1) by simp
  show ?case
  proof (cases k)
    case 0
    with Cons.prems(3) n show ?thesis by (simp add: nth_append)
  next
    case (Suc k')
    have "concat (xs # xss) ! (k * n + j) = concat xss ! (k' * n + j)"
      using Suc n by (simp add: nth_append)
    also have "\<dots> = xss ! k' ! j"
      using Cons.prems Suc by (intro Cons.IH) simp_all
    finally show ?thesis using Suc by simp
  qed
qed

lemma length_plane:
  "length (concat (map (\<lambda>i. map (\<lambda>j. f i j) [0..<w]) [0..<h])) = h * w"
  using length_concat_uniform [of "map (\<lambda>i. map (\<lambda>j. f i j) [0..<w]) [0..<h]" w] by auto

lemma nth_plane:
  "i < h \<Longrightarrow> j < w \<Longrightarrow> concat (map (\<lambda>i. map (\<lambda>j. f i j) [0..<w]) [0..<h]) ! (i * w + j) = f i j"
  using nth_concat_uniform [of "map (\<lambda>i. map (\<lambda>j. f i j) [0..<w]) [0..<h]" w i j] by auto

lemma length_channel_first: "length (channel_first f c h w) = c * h * w"
proof -
  have "length (channel_first f c h w) = length (map (\<lambda>k. concat (map (\<lambda>i. map (\<lambda>j. f i j k) [0..<w]) [0..<h])) [0..<c]) * (h * w)"
    unfolding channel_first_def by (rule length_concat_uniform) (auto simp add: length_plane)
  then show ?thesis by simp
qed

lemma nth_channel_first:
  assumes "k < c" "i < h" "j < w"
  shows "channel_first f c h w ! ((k * h + i) * w + j) = f i j k"
proof -
  have lt: "i * w + j < h * w"
  proof -
    have "i * w + j < i * w + w" using assms(3) by simp
    also have "\<dots> = Suc i * w" by simp
    also have "\<dots> \<le> h * w" using assms(2) by (intro mult_le_mono1) simp
    finally show ?thesis .
  qed
  have idx: "(k * h + i) * w + j = k * (h * w) + (i * w + j)"
    by (simp add: algebra_simps)
  have "channel_first f c h w ! (k * (h * w) + (i * w + j))
      = map (\<lambda>k. concat (map (\<lambda>i. map (\<lambda>j. f i j k) [0..<w]) [0..<h])) [0..<c] ! k ! (i * w + j)"
    unfolding channel_first_def using assms(1) lt
    by (intro nth_concat_uniform) (auto simp add: length_plane)
  also have "\<dots> = concat (map (\<lambda>i. map (\<lambda>j. f i j k) [0..<w]) [0..<h]) ! (i * w + j)"
    using assms(1) by simp
  also have "\<dots> = f i j k" using assms(2,3) by (rule nth_plane)
  finally show ?thesis by (simp only: idx)
qed

lemma transpose_201_hwc:
  "shape a = [h, w, c] \<Longrightarrow>
     transpose_201 a = Inr \<lparr>shape = [c, h, w], data = channel_first (\<lambda>i j k. data a ! ((i * w + j) * c + k)) c h w\<rparr>"
  by (simp add: transpose_201_def channel_first_def)

lemma sk_resize_ndarray:
  "0 \<le> new_h \<Longrightarrow> 0 \<le> new_w \<Longrightarrow> shape a = [h, w, c] \<Longrightarrow>
     sk_resize L (Ndarray a) new_h new_w =
       Inr \<lparr>shape = [nat new_h, nat new_w, c],
            data = map (interpolate L a (nat new_h) (nat new_w)) [0..<nat new_h * nat new_w * c]\<rparr>"
  by (simp add: sk_resize_def Let_def mult.assoc)

lemma Resize_call_ndarray:
  assumes "0 \<le> new_h" "0 \<le> new_w" "image (heap w r) = Ndarray a" "shape a = [h, wd, c]"
  shows "Resize_call L (SizeTuple [new_h, new_w]) w r =
     (set_image w r (Ndarray (astype_uint8
        \<lparr>shape = [nat new_h, nat new_w, c],
         data = map (interpolate L a (nat new_h) (nat new_w)) [0..<nat new_h * nat new_w * c]\<rparr>)), Inr r)"
  using sk_resize_ndarray [OF assms(1,2,4), of L] assms(3) by (simp add: Resize_call_def)

lemma ToTensor_call_ndarray:
  assumes "image (heap w r) = Ndarray a" "shape a = [h, wd, c]"
    "mass (heap w r) = Ndarray m" "calories (heap w r) = Ndarray cal"
  shows "ToTensor_call w r =
     (w\<lparr>heap := (heap w)(next_ref w :=
          \<lparr>image = Tensor \<lparr>shape = [c, h, wd],
                           data = channel_first (\<lambda>i j k. data a ! ((i * wd + j) * c + k)) c h wd\<rparr>,
           mass = Tensor m, calories = Tensor cal\<rparr>),
        next_ref := Suc (next_ref w)\<rparr>, Inr (next_ref w))"
  using assms transpose_201_hwc [OF assms(2)]
  by (simp add: ToTensor_call_def Let_def from_numpy_def new_dict_def)

lemma set_image_heap:
  "heap (set_image w r v) q = (if q = r then (heap w r)\<lparr>image := v\<rparr> else heap w q)"
  "next_ref (set_image w r v) = next_ref w" "rng (set_image w r v) = rng w"
  by (simp_all add: set_image_def)

lemma set_mass_heap:
  "heap (set_mass w r v) q = (if q = r then (heap w r)\<lparr>mass := v\<rparr> else heap w q)"
  "next_ref (set_mass w r v) = next_ref w" "rng (set_mass w r v) = rng w"
  by (simp_all add: set_mass_def)

lemma set_calories_heap:
  "heap (set_calories w r v) q = (if q = r then (heap w r)\<lparr>calories := v\<rparr> else heap w q)"
  "next_ref (set_calories w r v) = next_ref w" "rng (set_calories w r v) = rng w"
  by (simp_all add: set_calories_def)

text \<open>
  Claim C10. For every sample whose image is an ndarray of shape \<open>(H, W, 3)\<close> and whose
  mass and calories are ndarrays, and for positive target sizes, the pipeline
  \<open>Resize((target_h, target_w))\<close> then \<open>ToTensor\<close> returns a sample whose image is a
  tensor of shape \<open>(3, target_h, target_w)\<close>: \<open>Resize\<close> leaves in the sample an image of
  shape \<open>(target_h, target_w, 3)\<close>, \<open>ToTensor\<close> moves the channel axis to the front, the
  element at \<open>(k, i, j)\<close> being the resized element at \<open>(i, j, k)\<close>, and image, mass and
  calories all come back as tensors.
\<close>

theorem resize_to_tensor_shape:
  assumes img: "image (heap w r) = Ndarray a" and sh: "shape a = [h, wd, 3]"
    and m: "mass (heap w r) = Ndarray m" and c: "calories (heap w r) = Ndarray cal"
    and th: "0 < target_h" and tw: "0 < target_w" and r: "r < next_ref w"
  shows "\<exists>w' r' resized b.
      Compose_call L (Compose [Resize (SizeTuple [target_h, target_w]), ToTensor]) w r = (w', Inr r')
    \<and> image (heap w' r) = Ndarray resized
    \<and> shape resized = [nat target_h, nat target_w, 3]
    \<and> image (heap w' r') = Tensor b
    \<and> shape b = [3, nat target_h, nat target_w]
    \<and> length (data b) = 3 * nat target_h * nat target_w
    \<and> (\<forall>k<3. \<forall>i<nat target_h. \<forall>j<nat target_w.
          data b ! ((k * nat target_h + i) * nat target_w + j)
            = data resized ! ((i * nat target_w + j) * 3 + k))
    \<and> mass (heap w' r') = Tensor m
    \<and> calories (heap w' r') = Tensor cal"
proof -
  define resized where "resized = astype_uint8
        \<lparr>shape = [nat target_h, nat target_w, 3],
         data = map (interpolate L a (nat target_h) (nat target_w))
                  [0..<nat target_h * nat target_w * 3]\<rparr>"
  define w1 where "w1 = set_image w r (Ndarray resized)"
  define b where "b = \<lparr>shape = [3, nat target_h, nat target_w],
       data = channel_first (\<lambda>i j k. data resized ! ((i * nat target_w + j) * 3 + k))
                3 (nat target_h) (nat target_w)\<rparr>"
  define w2 where "w2 = w1\<lparr>heap := (heap w1)(next_ref w1 :=
          \<lparr>image = Tensor b, mass = Tensor m, calories = Tensor cal\<rparr>),
        next_ref := Suc (next_ref w1)\<rparr>"
  have rs: "shape resized = [nat target_h, nat target_w, 3]"
    by (simp add: resized_def astype_uint8_def)
  have step1: "Resize_call L (SizeTuple [target_h, target_w]) w r = (w1, Inr r)"
    unfolding w1_def resized_def using th tw img sh
    by (intro Resize_call_ndarray) simp_all
  have i1: "image (heap w1 r) = Ndarray resized"
    and m1: "mass (heap w1 r) = Ndarray m" and c1: "calories (heap w1 r) = Ndarray cal"
    using m c by (simp_all add: w1_def set_image_heap)
  have step2: "ToTensor_call w1 r = (w2, Inr (next_ref w1))"
    unfolding w2_def b_def using i1 rs m1 c1 by (rule ToTensor_call_ndarray)
  have n1: "next_ref w1 = next_ref w" by (simp add: w1_def set_image_heap)
  have run: "Compose_call L (Compose [Resize (SizeTuple [target_h, target_w]), ToTensor]) w r
      = (w2, Inr (next_ref w1))"
    by (simp add: step1 step2)
  have neq: "r \<noteq> next_ref w1" using r n1 by simp
  have a1: "image (heap w2 r) = Ndarray resized"
    using neq i1 by (simp add: w2_def)
  have new: "heap w2 (next_ref w1) = \<lparr>image = Tensor b, mass = Tensor m, calories = Tensor cal\<rparr>"
    by (simp add: w2_def)
  have sb: "shape b = [3, nat target_h, nat target_w]" by (simp add: b_def)
  have lb: "length (data b) = 3 * nat target_h * nat target_w"
    by (simp add: b_def length_channel_first)
  have el: "\<forall>k<3. \<forall>i<nat target_h. \<forall>j<nat target_w.
          data b ! ((k * nat target_h + i) * nat target_w + j)
            = data resized ! ((i * nat target_w + j) * 3 + k)"
    by (simp add: b_def nth_channel_first)
  show ?thesis
    using run a1 rs new sb lb el by (intro exI [of _ w2] exI [of _ "next_ref w1"] exI [of _ resized] exI [of _ b]) simp
qed

lemma resize_to_tensor_run:
  "snd (Compose_call stand_in_lib (Compose [Resize (SizeTuple [2, 2]), ToTensor]) one_sample_world 0)
     = Inr 1
   \<and> heap (fst (Compose_call stand_in_lib (Compose [Resize (SizeTuple [2, 2]), ToTensor])
                  one_sample_world 0)) 1
     = \<lparr>image = Tensor \<lparr>shape = [3, 2, 2],
                      data = [10, 10, 10, 10, 20, 20, 20, 20, 30, 30, 30, 30]\<rparr>,
        mass = Tensor \<lparr>shape = [1, 1], data = [Fin (201 / 2)]\<rparr>,
        calories = Tensor \<lparr>shape = [1, 1], data = [Fin 250]\<rparr>\<rparr>"
  by code_simp

theorem resize_to_tensor_shape_witness:
  "image (heap one_sample_world 0) = Ndarray \<lparr>shape = [1, 1, 3], data = [10, 20, 30]\<rparr>
   \<and> shape \<lparr>shape = [1, 1, 3], data = [10, 20, 30 :: real]\<rparr> = [1, 1, 3]
   \<and> mass (heap one_sample_world 0) = Ndarray \<lparr>shape = [1, 1], data = [Fin (201 / 2)]\<rparr>
   \<and> calories (heap one_sample_world 0) = Ndarray \<lparr>shape = [1, 1], data = [Fin 250]\<rparr>
   \<and> (0::int) < 2 \<and> 0 < next_ref one_sample_world
   \<and> (\<exists>w' r' b.
        Compose_call stand_in_lib (Compose [Resize (SizeTuple [2, 2]), ToTensor]) one_sample_world 0
          = (w', Inr r')
      \<and> image (heap w' r') = Tensor b \<and> shape b = [3, 2, 2] \<and> length (data b) = 12
      \<and> mass (heap w' r') = Tensor \<lparr>shape = [1, 1], data = [Fin (201 / 2)]\<rparr>
      \<and> calories (heap w' r') = Tensor \<lparr>shape = [1, 1], data = [Fin 250]\<rparr>)"
proof -
  have i: "image (heap one_sample_world 0) = Ndarray \<lparr>shape = [1, 1, 3], data = [10, 20, 30]\<rparr>"
    and m: "mass (heap one_sample_world 0) = Ndarray \<lparr>shape = [1, 1], data = [Fin (201 / 2)]\<rparr>"
    and c: "calories (heap one_sample_world 0) = Ndarray \<lparr>shape = [1, 1], data = [Fin 250]\<rparr>"
    and n: "0 < next_ref one_sample_world"
    by (simp_all add: one_sample_world_def raw_sample_def)
  have s: "shape \<lparr>shape = [1, 1, 3], data = [10, 20, 30 :: real]\<rparr> = [1, 1, 3]" by simp
  have p: "(0::int) < 2" by simp
  from resize_to_tensor_shape [OF i s m c p p n, of stand_in_lib]
  have "\<exists>w' r' b.
        Compose_call stand_in_lib (Compose [Resize (SizeTuple [2, 2]), ToTensor]) one_sample_world 0
          = (w', Inr r')
      \<and> image (heap w' r') = Tensor b \<and> shape b = [3, 2, 2] \<and> length (data b) = 12
      \<and> mass (heap w' r') = Tensor \<lparr>shape = [1, 1], data = [Fin (201 / 2)]\<rparr>
      \<and> calories (heap w' r') = Tensor \<lparr>shape = [1, 1], data = [Fin 250]\<rparr>"
    by (elim exE conjE) (auto simp add: numeral_2_eq_2)
  with i s m c p n show ?thesis by blast
qed










lemma collect_Inr: "collect (map Inr ts) = Inr ts"
  by (induction ts) simp_all

lemma collect_Inl: "collect elements = Inl e \<Longrightarrow> Inl e \<in> set elements"
proof (induction elements rule: collect.induct)
  case 1
  then show ?case by simp
next
  case (2 e' rest)
  then show ?case by simp
next
  case (3 x rest)
  then show ?case by (auto split: sum.splits)
qed

lemma Normalize_call_rejected:
  assumes "normalize L (image (heap w r)) means stds = Inl e"
  shows "\<exists>w'. Normalize_call L means stds mass_max calories_max w r = (w', Inl e)
     \<and> mass (heap w' r) = arr_div (mass (heap w r)) mass_max
     \<and> calories (heap w' r) = arr_div (calories (heap w r)) calories_max"
  using assms
  by (simp add: Normalize_call_def Let_def set_mass_heap set_calories_heap)

text \<open>
  Claim C9, as amended. Building a pipeline checks nothing about the order of its
  transforms: \<open>Compose\<close> over transforms that were constructed, in any order, is a
  pipeline, and the construction can only fail with the error of one of its own
  constructor calls. A pipeline that starts with \<open>Normalize\<close> fails, if it does, while a
  sample is processed: when the library's \<open>normalize\<close> rejects the image, the error
  leaves \<open>Compose\<close> after mass and calories of the sample were overwritten.
\<close>

theorem compose_checks_no_order:
  "Compose_init (map Inr ts) = Inr (Compose ts)
   \<and> (Compose_init elements = Inl e \<longrightarrow> Inl e \<in> set elements)
   \<and> (normalize L (image (heap w r)) means stds = Inl e' \<longrightarrow>
        (\<exists>w'. Compose_call L (Compose (Normalize means stds mass_max calories_max # rest)) w r
                = (w', Inl e')
           \<and> mass (heap w' r) = arr_div (mass (heap w r)) mass_max
           \<and> calories (heap w' r) = arr_div (calories (heap w r)) calories_max))"
proof -
  have 1: "Compose_init (map Inr ts) = Inr (Compose ts)"
    by (simp add: Compose_init_def collect_Inr)
  have 2: "Compose_init elements = Inl e \<longrightarrow> Inl e \<in> set elements"
    by (auto simp add: Compose_init_def split: sum.splits dest: collect_Inl)
  have 3: "normalize L (image (heap w r)) means stds = Inl e' \<longrightarrow>
        (\<exists>w'. Compose_call L (Compose (Normalize means stds mass_max calories_max # rest)) w r
                = (w', Inl e')
           \<and> mass (heap w' r) = arr_div (mass (heap w r)) mass_max
           \<and> calories (heap w' r) = arr_div (calories (heap w r)) calories_max)"
  proof
    assume "normalize L (image (heap w r)) means stds = Inl e'"
    from Normalize_call_rejected [OF this, of mass_max calories_max]
    obtain w' where "Normalize_call L means stds mass_max calories_max w r = (w', Inl e')"
      and "mass (heap w' r) = arr_div (mass (heap w r)) mass_max"
      and "calories (heap w' r) = arr_div (calories (heap w r)) calories_max"
      by blast
    then show "\<exists>w'. Compose_call L (Compose (Normalize means stds mass_max calories_max # rest)) w r
                = (w', Inl e')
           \<and> mass (heap w' r) = arr_div (mass (heap w r)) mass_max
           \<and> calories (heap w' r) = arr_div (calories (heap w r)) calories_max"
      by simp
  qed
  from 1 2 3 show ?thesis by blast
qed

lemma misordered_run:
  "Compose_init [Inr (Normalize [0, 0, 0] [1, 1, 1] (Fin 2) (Fin 2)), Inr ToTensor]
     = Inr (Compose [Normalize [0, 0, 0] [1, 1, 1] (Fin 2) (Fin 2), ToTensor])
   \<and> snd (Compose_call stand_in_lib (Compose [Normalize [0, 0, 0] [1, 1, 1] (Fin 2) (Fin 2), ToTensor])
            one_sample_world 0) = Inl TypeError
   \<and> mass (heap (fst (Compose_call stand_in_lib
              (Compose [Normalize [0, 0, 0] [1, 1, 1] (Fin 2) (Fin 2), ToTensor])
              one_sample_world 0)) 0)
       = Ndarray \<lparr>shape = [1, 1], data = [Fin (201 / 4)]\<rparr>"
  by (simp add: Compose_init_def Normalize_call_def Let_def set_mass_def set_calories_def
      arr_div_def one_sample_world_def raw_sample_def stand_in_lib_def tensors_only_def)

theorem compose_checks_no_order_witness:
  "Compose_init [Resize_init SizeOther, Inr ToTensor] = Inl AssertionError
   \<and> Inl AssertionError \<in> set [Resize_init SizeOther, Inr ToTensor]
   \<and> normalize stand_in_lib (image (heap one_sample_world 0)) [0, 0, 0] [1, 1, 1] = Inl TypeError
   \<and> Compose_init (map Inr [Normalize [0, 0, 0] [1, 1, 1] (Fin 2) (Fin 2), ToTensor])
       = Inr (Compose [Normalize [0, 0, 0] [1, 1, 1] (Fin 2) (Fin 2), ToTensor])
   \<and> (\<exists>w'. Compose_call stand_in_lib
              (Compose [Normalize [0, 0, 0] [1, 1, 1] (Fin 2) (Fin 2), ToTensor]) one_sample_world 0
            = (w', Inl TypeError)
         \<and> mass (heap w' 0) = arr_div (mass (heap one_sample_world 0)) (Fin 2)
         \<and> calories (heap w' 0) = arr_div (calories (heap one_sample_world 0)) (Fin 2))"
proof -
  have a: "Compose_init [Resize_init SizeOther, Inr ToTensor] = Inl AssertionError"
    by (simp add: Compose_init_def Resize_init_def)
  have n: "normalize stand_in_lib (image (heap one_sample_world 0)) [0, 0, 0] [1, 1, 1]
      = Inl TypeError"
    by (simp add: stand_in_lib_def one_sample_world_def raw_sample_def tensors_only_def)
  note t = compose_checks_no_order [of "[Normalize [0, 0, 0] [1, 1, 1] (Fin 2) (Fin 2), ToTensor]"
      "[Resize_init SizeOther, Inr ToTensor]" AssertionError stand_in_lib one_sample_world 0
      "[0, 0, 0]" "[1, 1, 1]" TypeError "Fin 2" "Fin 2" "[ToTensor]"]
  from t a have m: "Inl AssertionError \<in> set [Resize_init SizeOther, Inr ToTensor]"
    by blast
  from t have c: "Compose_init (map Inr [Normalize [0, 0, 0] [1, 1, 1] (Fin 2) (Fin 2), ToTensor])
       = Inr (Compose [Normalize [0, 0, 0] [1, 1, 1] (Fin 2) (Fin 2), ToTensor])"
    by (rule conjunct1)
  from t n have r: "\<exists>w'. Compose_call stand_in_lib
              (Compose [Normalize [0, 0, 0] [1, 1, 1] (Fin 2) (Fin 2), ToTensor]) one_sample_world 0
            = (w', Inl TypeError)
         \<and> mass (heap w' 0) = arr_div (mass (heap one_sample_world 0)) (Fin 2)
         \<and> calories (heap w' 0) = arr_div (calories (heap one_sample_world 0)) (Fin 2)"
    by blast
  from a m n c r show ?thesis by blast
qed

text \<open>
  Against the claim as first stated: the pipeline \<open>Normalize\<close>, \<open>ToTensor\<close> is built
  without an error; applied to a raw sample it raises the library's TypeError, and the
  mass of the sample has changed by then.
\<close>

theorem misordered_pipeline_counterexample:
  "Compose_init [Inr (Normalize [0, 0, 0] [1, 1, 1] (Fin 2) (Fin 2)), Inr ToTensor]
     = Inr (Compose [Normalize [0, 0, 0] [1, 1, 1] (Fin 2) (Fin 2), ToTensor])
   \<and> snd (Compose_call stand_in_lib (Compose [Normalize [0, 0, 0] [1, 1, 1] (Fin 2) (Fin 2), ToTensor])
            one_sample_world 0) = Inl TypeError
   \<and> mass (heap (fst (Compose_call stand_in_lib
              (Compose [Normalize [0, 0, 0] [1, 1, 1] (Fin 2) (Fin 2), ToTensor])
              one_sample_world 0)) 0)
       \<noteq> mass (heap one_sample_world 0)"
  using misordered_run by (simp add: one_sample_world_def raw_sample_def)

section \<open>Properties of train.py\<close>

lemma import_Rescale:
  "import_from dataset_module [''Rescale'', ''ToTensor'', ''Nutrition5kDataset'']
     = Inl (ImportError ''Rescale'')"
  by (simp add: dataset_module_def)

lemma init_one_positional: "Nutrition5kDataset_init [a] t = Inl TypeError"
  by (simp add: Nutrition5kDataset_init_def)

lemma main_block_fails: "\<exists>e. main_block env = Inl e"
  by (simp add: main_block_def init_one_positional split: sum.splits)

text \<open>
  Claim C3. Whatever the arguments, the configuration and the surroundings, the script
  ends at its import from \<open>nutrition5k.dataset\<close> with an ImportError for \<open>Rescale\<close>,
  a name the module does not bind (it binds \<open>Resize\<close>), so before the arguments are
  parsed. The block under the main guard fails on its own as well: it calls
  \<open>Nutrition5kDataset\<close> with one positional argument, which is a TypeError for the
  missing \<open>root_dir\<close>, so it never reaches the epoch loop.
\<close>

theorem train_script_fails_at_import:
  "train_script env = Inl (ImportError ''Rescale'')
   \<and> ''Rescale'' \<notin> set dataset_module
   \<and> ''Resize'' \<in> set dataset_module
   \<and> Nutrition5kDataset_init [Path (dataset_dir cfg)] (Some pipeline) = Inl TypeError
   \<and> (\<exists>e. main_block env = Inl e)"
proof -
  have "train_script env = Inl (ImportError ''Rescale'')"
    unfolding train_script_def import_Rescale by simp
  moreover have "''Rescale'' \<notin> set dataset_module" and "''Resize'' \<in> set dataset_module"
    by (simp_all add: dataset_module_def)
  moreover have "Nutrition5kDataset_init [Path (dataset_dir cfg)] (Some pipeline) = Inl TypeError"
    by (rule init_one_positional)
  moreover have "\<exists>e. main_block env = Inl e" by (rule main_block_fails)
  ultimately show ?thesis by blast
qed

lemma main_block_two_epoch: "main_block two_epoch_env = Inl TypeError"
  by (simp add: main_block_def two_epoch_env_def Compose_init_def Resize_init_def
      init_one_positional)

lemma test_loader_is_val:
  "getitem (dataloaders cfg train_set val_set test_set) ''test''
     = Inr (DataLoader val_set (batch_size cfg) False)"
  by (simp add: getitem_def dataloaders_def)

text \<open>
  Claim C1, which the code does not meet. The dictionary entry \<open>'test'\<close>, the loader
  that is saved as \<open>test_loader.pt\<close>, is built over \<open>val_set\<close>; the subset \<open>test_set\<close>
  is never used. In the run over eight records the test split is \<open>[6, 7]\<close> and the saved
  loader iterates \<open>[4, 5]\<close>, the validation split.
\<close>

theorem test_loader_iterates_validation_split:
  "getitem (dataloaders cfg train_set val_set test_set) ''test''
     = Inr (DataLoader val_set (batch_size cfg) False)
   \<and> map_sum id split_sets (training_run two_epoch_env two_epoch_config 8)
       = Inr [[0, 1, 2, 3], [4, 5], [6, 7]]
   \<and> map_sum id (loader_records \<circ> test_loader) (training_run two_epoch_env two_epoch_config 8)
       = Inr [4, 5]"
proof -
  have "random_split (randperm two_epoch_env) 8 [4, 2, 2] = Inr [[0, 1, 2, 3], [4, 5], [6, 7]]"
    by (simp add: random_split_def two_epoch_env_def py_slice_def slice_bound_def Let_def
        upt_conv_Cons)
  then have "map_sum id split_sets (training_run two_epoch_env two_epoch_config 8)
       = Inr [[0, 1, 2, 3], [4, 5], [6, 7]]"
    and "map_sum id (loader_records \<circ> test_loader) (training_run two_epoch_env two_epoch_config 8)
       = Inr [4, 5]"
    by (simp_all add: training_run_def two_epoch_config_def py_int_def Let_def test_loader_is_val)
  with test_loader_is_val show ?thesis by blast
qed

lemma two_epoch_loop:
  "epoch_loop two_epoch_env two_epoch_config
     = \<lparr>best_val_loss = Fin 2, best_training_loss = PInf, checkpoints = [0, 1]\<rparr>"
  by (simp add: epoch_loop_def epoch_body_def two_epoch_env_def two_epoch_config_def Let_def
      upt_conv_Cons)

lemma two_epoch_loop_best_only:
  "epoch_loop two_epoch_env (two_epoch_config\<lparr>save_best_model_only := True\<rparr>)
     = \<lparr>best_val_loss = Fin 1, best_training_loss = PInf, checkpoints = [0]\<rparr>"
  by (simp add: epoch_loop_def epoch_body_def two_epoch_env_def two_epoch_config_def Let_def
      upt_conv_Cons)

text \<open>
  Claim C2, which the code does not meet. In the run of two epochs the training losses
  are 5 and 4 and the validation losses 1 and 2. The reported best training loss stays
  infinite under either setting of \<open>save_best_model_only\<close>, since a training loss is
  compared with the best validation loss; and when every epoch is saved the reported
  best validation loss is the last one, 2, not the smallest, 1.
\<close>

theorem best_losses_are_not_the_minima:
  "min_loss (epoch_losses two_epoch_env two_epoch_config ''train'') = Fin 4
   \<and> min_loss (epoch_losses two_epoch_env two_epoch_config ''val'') = Fin 1
   \<and> best_training_loss (epoch_loop two_epoch_env two_epoch_config) = PInf
   \<and> best_val_loss (epoch_loop two_epoch_env two_epoch_config) = Fin 2
   \<and> best_training_loss (epoch_loop two_epoch_env (two_epoch_config\<lparr>save_best_model_only := True\<rparr>))
       = PInf
   \<and> best_val_loss (epoch_loop two_epoch_env (two_epoch_config\<lparr>save_best_model_only := True\<rparr>))
       = Fin 1"
proof -
  have "min_loss (epoch_losses two_epoch_env two_epoch_config ''train'') = Fin 4"
    and "min_loss (epoch_losses two_epoch_env two_epoch_config ''val'') = Fin 1"
    by (simp_all add: min_loss_def epoch_losses_def two_epoch_env_def two_epoch_config_def
        upt_conv_Cons)
  then show ?thesis by (simp add: two_epoch_loop two_epoch_loop_best_only)
qed

end
